theory Spec2Isabelle
  imports Complex_Main "HOL-Library.Char_ord" "HOL-Library.List_Lexorder"
begin

section \<open>Data model: operators, measurements, shots, tapes\<close>

text \<open>
  Python exceptions raised by the modelled functions. A function that can raise returns
  \<open>error + 'a\<close>, with \<open>Inl\<close> for the exception. \<open>Unmodelled\<close> is not a Python exception: it
  marks the few inputs on which a library call does something this model has no value for
  (such as counting the elements of an array into a \<^verbatim>\<open>Counter\<close>); no property below
  concerns them.
\<close>

datatype error =
    TypeError
  | ValueError
  | QuantumFunctionError
  | IndexError
  | KeyError
  | NotImplementedError
  | AssertionError
  | ZeroDivisionError
  | StopIteration
  | AttributeError
  | OverflowError
  | Unmodelled

text \<open>
  An operator of a circuit. \<open>MidMeasureMP\<close> is PennyLane's mid-circuit measurement: it is
  hashed by object identity (\<open>mm_id\<close>), measures one wire, and carries an optional postselect
  value and a reset flag. \<open>MidCircuitMeasure\<close> stands for the operators whose type name
  contains the text \<^verbatim>\<open>MidCircuitMeasure\<close> (the compiler's measurement operator), which
  \<^verbatim>\<open>is_mcm\<close> of \<^verbatim>\<open>dynamic_one_shot.py\<close> accepts besides \<open>MidMeasureMP\<close>; \<open>Gate\<close> is every
  other operator.
\<close>

datatype operation =
    is_Gate: Gate (op_name: string) (op_wires: "nat list")
  | is_MidMeasureMP: MidMeasureMP (mm_id: nat) (mm_wire: nat) (postselect: "int option")
      (reset: bool)
  | is_MidCircuitMeasure: MidCircuitMeasure (out_classical_tracer: nat)
      (postselect: "int option")

datatype mp_kind =
    CountsMP | ExpectationMP | ProbabilityMP | SampleMP | VarianceMP
  | OtherMP string

text \<open>
  A measurement value is either built from mid-circuit measurements (given by their
  identities) or is a classical tracer of the compiler; the attribute \<^verbatim>\<open>mv\<close> of a measurement
  can also hold a list of measurement values, \<open>MVSequence\<close> with its first entry and the
  others.
\<close>

datatype mvalue =
    MeasurementValue "nat list"
  | Tracer nat
  | MVSequence mvalue "mvalue list"

text \<open>
  A measurement process: its class, its observable, its wires and its measurement value.
  \<open>mp_eigvals\<close> is the length of the array that the method \<^verbatim>\<open>eigvals()\<close> returns, and \<open>None\<close> when
  that method returns \<^verbatim>\<open>None\<close>, as it does for a measurement given by wires alone.
  \<open>mp_all_outcomes\<close> is the attribute \<^verbatim>\<open>all_outcomes\<close> of a counts measurement.
\<close>

record measurement =
  mp_kind :: mp_kind
  mp_obs :: "string option"
  mp_wires :: "nat list"
  mp_mv :: "mvalue option"
  mp_eigvals :: "nat option"
  mp_all_outcomes :: bool

text \<open>
  Modelled from the spec: the class \<^verbatim>\<open>Shots\<close> is not part of the sources at hand. The spec
  describes a shot specification as analytic (\<^verbatim>\<open>None\<close>), an integer, or a shot vector of
  (count, copies) pairs. It is represented here by its expansion: \<open>None\<close> is analytic and
  \<open>Some xs\<close> lists the shot count of every execution in order, which is what iterating over
  a \<^verbatim>\<open>Shots\<close> object yields. A \<^verbatim>\<open>Shots\<close> object is true when it is not analytic.
\<close>

type_synonym shots = "nat list option"

definition shots_bool :: "shots \<Rightarrow> bool" where
  "shots_bool s = (s \<noteq> None)"

definition total_shots :: "shots \<Rightarrow> nat option" where
  "total_shots s = map_option sum_list s"

definition has_partitioned_shots :: "shots \<Rightarrow> bool" where
  "has_partitioned_shots s = (case s of None \<Rightarrow> False | Some xs \<Rightarrow> 1 < length xs)"

record tape =
  operations :: "operation list"
  measurements :: "measurement list"
  shots :: shots
  batch_size :: "nat option"
  trainable_params :: "nat list"

section \<open>The one-shot transform (\<^verbatim>\<open>transforms/dynamic_one_shot.py\<close>)\<close>

fun is_mcm :: "operation \<Rightarrow> bool" where
  "is_mcm (MidMeasureMP _ _ _ _) = True"
| "is_mcm (MidCircuitMeasure _ _) = True"
| "is_mcm (Gate _ _) = False"

definition null_postprocessing :: "'r list \<Rightarrow> error + 'r" where
  "null_postprocessing results = (case results of [] \<Rightarrow> Inl IndexError | r # _ \<Rightarrow> Inr r)"

text \<open>
  The postprocessing function a transform returns is a closure. \<open>NullPostprocessing\<close> is
  \<^verbatim>\<open>null_postprocessing\<close>; \<open>ProcessingFn\<close> is the inner \<^verbatim>\<open>processing_fn\<close> of
  \<^verbatim>\<open>dynamic_one_shot\<close> together with what it closes over: the input tape, the auxiliary
  tapes and the postselect mode.
\<close>

datatype postprocessing =
    NullPostprocessing
  | ProcessingFn tape "tape list" "string option"

definition supported_kind :: "mp_kind \<Rightarrow> bool" where
  "supported_kind k = (k = CountsMP \<or> k = ExpectationMP \<or> k = ProbabilityMP
                        \<or> k = SampleMP \<or> k = VarianceMP)"

text \<open>\<^verbatim>\<open>SampleMP(obs=m.obs)\<close> and \<^verbatim>\<open>qml.sample(mv)\<close> for a measurement value.\<close>

definition sample_obs :: "measurement \<Rightarrow> measurement" where
  "sample_obs m = \<lparr>mp_kind = SampleMP, mp_obs = mp_obs m, mp_wires = mp_wires m,
                   mp_mv = None, mp_eigvals = mp_eigvals m, mp_all_outcomes = False\<rparr>"

definition sample_mv :: "mvalue \<Rightarrow> measurement" where
  "sample_mv v = \<lparr>mp_kind = SampleMP, mp_obs = None, mp_wires = [],
                  mp_mv = Some v, mp_eigvals = Some 2, mp_all_outcomes = False\<rparr>"

text \<open>The first loop of \<^verbatim>\<open>init_auxiliary_tape\<close>, over the measurements.\<close>

fun aux_measurements :: "measurement list \<Rightarrow> measurement list" where
  "aux_measurements [] = []"
| "aux_measurements (m # ms) =
     (if mp_mv m = None
      then (if mp_kind m = VarianceMP then sample_obs m else m) # aux_measurements ms
      else aux_measurements ms)"

text \<open>The second loop of \<^verbatim>\<open>init_auxiliary_tape\<close>, over the operations.\<close>

fun aux_mcm_samples :: "operation list \<Rightarrow> measurement list" where
  "aux_mcm_samples [] = []"
| "aux_mcm_samples (MidCircuitMeasure t _ # ops) = sample_mv (Tracer t) # aux_mcm_samples ops"
| "aux_mcm_samples (MidMeasureMP i _ _ _ # ops) =
     sample_mv (MeasurementValue [i]) # aux_mcm_samples ops"
| "aux_mcm_samples (Gate _ _ # ops) = aux_mcm_samples ops"

text \<open>
  \<^verbatim>\<open>init_auxiliary_tape\<close>. The new tape's shots are \<^verbatim>\<open>[1] * circuit.shots.total_shots\<close>;
  with analytic shots \<^verbatim>\<open>total_shots\<close> is \<^verbatim>\<open>None\<close> and the product raises a \<^verbatim>\<open>TypeError\<close>.
\<close>

definition init_auxiliary_tape :: "tape \<Rightarrow> error + tape" where
  "init_auxiliary_tape circuit =
     (case total_shots (shots circuit) of
        None \<Rightarrow> Inl TypeError
      | Some n \<Rightarrow>
          Inr \<lparr>operations = operations circuit,
               measurements = aux_measurements (measurements circuit)
                              @ aux_mcm_samples (operations circuit),
               shots = Some (replicate n 1),
               batch_size = batch_size circuit,
               trainable_params = trainable_params circuit\<rparr>)"

fun init_auxiliary_tapes :: "tape list \<Rightarrow> error + tape list" where
  "init_auxiliary_tapes [] = Inr []"
| "init_auxiliary_tapes (t # ts) =
     (case init_auxiliary_tape t of
        Inl e \<Rightarrow> Inl e
      | Inr a \<Rightarrow> (case init_auxiliary_tapes ts of Inl e \<Rightarrow> Inl e | Inr as \<Rightarrow> Inr (a # as)))"

text \<open>
  \<^verbatim>\<open>dynamic_one_shot\<close>. The transform \<^verbatim>\<open>broadcast_expand\<close> is not part of the sources at hand
  and is a parameter; \<open>postselect_mode\<close> is the keyword argument of that name.
\<close>

definition dynamic_one_shot ::
  "(tape \<Rightarrow> tape list) \<Rightarrow> string option \<Rightarrow> tape \<Rightarrow> error + (tape list \<times> postprocessing)" where
  "dynamic_one_shot broadcast_expand postselect_mode tp =
     (if \<not> list_ex is_mcm (operations tp) then Inr ([tp], NullPostprocessing)
      else if list_ex (\<lambda>m. \<not> supported_kind (mp_kind m)) (measurements tp) then Inl TypeError
      else if \<not> shots_bool (shots tp) then Inl QuantumFunctionError
      else if list_ex (\<lambda>op. postselect op \<noteq> None) (filter is_mcm (operations tp))
              \<and> list_ex (\<lambda>mp. mp_kind mp = SampleMP) (measurements tp)
              \<and> batch_size tp \<noteq> None then Inl ValueError
      else
        (case init_auxiliary_tapes
                (if batch_size tp \<noteq> None then broadcast_expand tp else [tp]) of
           Inl e \<Rightarrow> Inl e
         | Inr aux_tapes \<Rightarrow> Inr (aux_tapes, ProcessingFn tp aux_tapes postselect_mode)))"

section \<open>The simulation entry point (\<^verbatim>\<open>devices/qubit/simulate.py\<close>)\<close>

definition has_mid_circuit_measurements :: "tape \<Rightarrow> bool" where
  "has_mid_circuit_measurements circuit = list_ex is_MidMeasureMP (operations circuit)"

text \<open>
  \<^verbatim>\<open>simulate\<close>. The tree simulator, \<^verbatim>\<open>get_final_state\<close> and \<^verbatim>\<open>measure_final_state\<close> are
  passed in, as is the hash of a circuit; the optional \<^verbatim>\<open>state_cache\<close> dictionary is
  returned updated next to the result.
\<close>

definition simulate ::
  "(tape \<Rightarrow> 'r) \<Rightarrow> (tape \<Rightarrow> 'st \<times> bool) \<Rightarrow> (tape \<Rightarrow> 'st \<Rightarrow> bool \<Rightarrow> 'r) \<Rightarrow> (tape \<Rightarrow> nat)
     \<Rightarrow> tape \<Rightarrow> (nat \<rightharpoonup> 'st) option \<Rightarrow> 'r \<times> (nat \<rightharpoonup> 'st) option" where
  "simulate simulate_tree_mcm get_final_state measure_final_state hash circuit state_cache =
     (if shots_bool (shots circuit) \<and> has_mid_circuit_measurements circuit
      then (simulate_tree_mcm circuit, state_cache)
      else (case get_final_state circuit of
              (state, is_state_batched) \<Rightarrow>
                (measure_final_state circuit state is_state_batched,
                 map_option (\<lambda>c. c(hash circuit \<mapsto> state)) state_cache)))"

section \<open>Decomposition rules and their resources (\<^verbatim>\<open>decomposition/decomposition_rule.py\<close>)\<close>









text \<open>\<^verbatim>\<open>Counter.update({k: c})\<close>: add \<open>c\<close> to the count of \<open>k\<close>, a new key going last.\<close>

fun counter_update :: "'k \<Rightarrow> int \<Rightarrow> ('k \<times> int) list \<Rightarrow> ('k \<times> int) list" where
  "counter_update k c [] = [(k, c)]"
| "counter_update k c ((k', c') # xs) =
     (if k' = k then (k', c' + c) # xs else (k', c') # counter_update k c xs)"










section \<open>The registry of decomposition rules\<close>

text \<open>
  The module-level \<^verbatim>\<open>_decompositions\<close> is a \<^verbatim>\<open>defaultdict(list)\<close> from operator names to
  list objects. Lists are mutable and shared by reference, so the registry maps a name to
  the address of its list, and a store maps addresses to list contents; \<open>next_addr\<close> is the
  next unused address. The function \<^verbatim>\<open>translate_op_alias\<close> is not part of the sources at
  hand and is a parameter.
\<close>

record 'r registry =
  decompositions :: "string \<rightharpoonup> nat"
  store :: "nat \<rightharpoonup> 'r list"
  next_addr :: nat

datatype op_type = OperatorClass string | OperatorAlias string

definition op_type_name :: "op_type \<Rightarrow> string" where
  "op_type_name t = (case t of OperatorClass n \<Rightarrow> n | OperatorAlias a \<Rightarrow> a)"

definition empty_registry :: "'r registry" where
  "empty_registry = \<lparr>decompositions = Map.empty, store = Map.empty, next_addr = 0\<rparr>"

definition new_list :: "'r list \<Rightarrow> 'r registry \<Rightarrow> nat \<times> 'r registry" where
  "new_list xs s =
     (next_addr s, s\<lparr>store := (store s)(next_addr s \<mapsto> xs), next_addr := Suc (next_addr s)\<rparr>)"

definition list_at :: "'r registry \<Rightarrow> nat \<Rightarrow> 'r list" where
  "list_at s a = (case store s a of None \<Rightarrow> [] | Some xs \<Rightarrow> xs)"

text \<open>\<^verbatim>\<open>_decompositions[key]\<close>: a missing key is inserted with a new empty list.\<close>

definition decompositions_getitem :: "string \<Rightarrow> 'r registry \<Rightarrow> nat \<times> 'r registry" where
  "decompositions_getitem key s =
     (case decompositions s key of
        Some a \<Rightarrow> (a, s)
      | None \<Rightarrow>
          (case new_list [] s of
             (a, s') \<Rightarrow> (a, s'\<lparr>decompositions := (decompositions s')(key \<mapsto> a)\<rparr>)))"

text \<open>
  \<^verbatim>\<open>add_decomps\<close>. An argument that is not a \<^verbatim>\<open>DecompositionRule\<close> is \<open>None\<close> here.
\<close>

definition add_decomps ::
  "(string \<Rightarrow> string) \<Rightarrow> op_type \<Rightarrow> 'r option list \<Rightarrow> 'r registry \<Rightarrow> error + 'r registry" where
  "add_decomps translate_op_alias t decomps s =
     (if \<not> list_all (\<lambda>d. d \<noteq> None) decomps then Inl TypeError
      else (case decompositions_getitem (translate_op_alias (op_type_name t)) s of
              (a, s') \<Rightarrow> Inr (s'\<lparr>store := (store s')(a \<mapsto> list_at s' a @ map the decomps)\<rparr>)))"

text \<open>\<^verbatim>\<open>list_decomps\<close> returns \<^verbatim>\<open>_decompositions[key][:]\<close>, a new list object.\<close>

definition list_decomps ::
  "(string \<Rightarrow> string) \<Rightarrow> op_type \<Rightarrow> 'r registry \<Rightarrow> nat \<times> 'r registry" where
  "list_decomps translate_op_alias t s =
     (case decompositions_getitem (translate_op_alias (op_type_name t)) s of
        (a, s') \<Rightarrow> new_list (list_at s' a) s')"

definition has_decomp :: "(string \<Rightarrow> string) \<Rightarrow> op_type \<Rightarrow> 'r registry \<Rightarrow> bool" where
  "has_decomp translate_op_alias t s =
     (case decompositions s (translate_op_alias (op_type_name t)) of
        None \<Rightarrow> False
      | Some a \<Rightarrow> 0 < length (list_at s a))"

text \<open>
  Any mutation of the list object at address \<open>a\<close> (append, delete, clear, assignment)
  replaces its contents by some \<open>ys\<close>.
\<close>

definition mutate_list :: "nat \<Rightarrow> 'r list \<Rightarrow> 'r registry \<Rightarrow> 'r registry" where
  "mutate_list a ys s = s\<lparr>store := (store s)(a \<mapsto> ys)\<rparr>"

text \<open>What the registry holds: for each name, the contents of its list.\<close>

definition registry_view :: "'r registry \<Rightarrow> (string \<rightharpoonup> 'r list)" where
  "registry_view s = (\<lambda>k. map_option (list_at s) (decompositions s k))"

definition returned_list :: "nat \<times> 'r registry \<Rightarrow> 'r list" where
  "returned_list r = list_at (snd r) (fst r)"

text \<open>Every list of the registry was allocated: its address is below \<open>next_addr\<close>.\<close>

definition wf_registry :: "'r registry \<Rightarrow> bool" where
  "wf_registry s = (\<forall>k a. decompositions s k = Some a \<longrightarrow> a < next_addr s)"

definition cnot_registry :: "string registry" where
  "cnot_registry = \<lparr>decompositions = [''CNOT'' \<mapsto> 0],
                    store = [0 \<mapsto> [''cnot_to_cz_h'', ''cnot_to_ppr'']], next_addr = 1\<rparr>"

section \<open>Numbers and measurement results\<close>

text \<open>
  A floating-point number is a real number or one of the IEEE special values; rounding is
  not modelled. \<open>fscale\<close> is the product of a Python integer (a shot count) with a float,
  \<open>fdiv\<close> the quotient of a NumPy float by a shot count, which yields a special value and no
  exception when the count is zero.
\<close>

datatype fl = Fin real | PInf | NInf | NaN

fun fadd :: "fl \<Rightarrow> fl \<Rightarrow> fl" where
  "fadd (Fin a) (Fin b) = Fin (a + b)"
| "fadd NaN _ = NaN"
| "fadd _ NaN = NaN"
| "fadd PInf NInf = NaN"
| "fadd NInf PInf = NaN"
| "fadd PInf _ = PInf"
| "fadd _ PInf = PInf"
| "fadd NInf _ = NInf"
| "fadd _ NInf = NInf"

fun fscale :: "nat \<Rightarrow> fl \<Rightarrow> fl" where
  "fscale n (Fin a) = Fin (real n * a)"
| "fscale n NaN = NaN"
| "fscale n PInf = (if n = 0 then NaN else PInf)"
| "fscale n NInf = (if n = 0 then NaN else NInf)"

fun fdiv :: "fl \<Rightarrow> nat \<Rightarrow> fl" where
  "fdiv (Fin a) n =
     (if n = 0 then (if a = 0 then NaN else if 0 < a then PInf else NInf)
      else Fin (a / real n))"
| "fdiv NaN n = NaN"
| "fdiv PInf n = PInf"
| "fdiv NInf n = NInf"

text \<open>
  What a measurement yields: a Python float (the constant \<^verbatim>\<open>np.nan\<close> is one), a NumPy scalar,
  a one-dimensional NumPy array, or a dictionary of counts. The result of a simulation is
  one such value, or a tuple of them when the circuit has several measurements.
\<close>

datatype "value" =
    PyFloat fl
  | Scalar fl
  | Array "fl list"
  | CountsDict "(string \<times> int) list"

datatype result = Single "value" | Multi "value list"

text \<open>
  The arithmetic of \<^verbatim>\<open>cum_value += v[0] * v[1]\<close> and \<^verbatim>\<open>cum_value / total_counts\<close>. The
  accumulator starts as the Python integer 0, which is \<open>None\<close> here. An array accumulator is
  updated in place, so the summand must broadcast to its shape.
\<close>

fun v_scale :: "nat \<Rightarrow> value \<Rightarrow> error + value" where
  "v_scale n (PyFloat x) = Inr (PyFloat (fscale n x))"
| "v_scale n (Scalar x) = Inr (Scalar (fscale n x))"
| "v_scale n (Array xs) = Inr (Array (map (fscale n) xs))"
| "v_scale n (CountsDict d) = Inl TypeError"

fun v_add :: "value option \<Rightarrow> value \<Rightarrow> error + value" where
  "v_add None v = Inr v"
| "v_add (Some (PyFloat a)) (PyFloat b) = Inr (PyFloat (fadd a b))"
| "v_add (Some (PyFloat a)) (Scalar b) = Inr (Scalar (fadd a b))"
| "v_add (Some (Scalar a)) (PyFloat b) = Inr (Scalar (fadd a b))"
| "v_add (Some (Scalar a)) (Scalar b) = Inr (Scalar (fadd a b))"
| "v_add (Some (PyFloat a)) (Array ys) = Inr (Array (map (fadd a) ys))"
| "v_add (Some (Scalar a)) (Array ys) = Inr (Array (map (fadd a) ys))"
| "v_add (Some (Array xs)) (PyFloat b) = Inr (Array (map (\<lambda>x. fadd x b) xs))"
| "v_add (Some (Array xs)) (Scalar b) = Inr (Array (map (\<lambda>x. fadd x b) xs))"
| "v_add (Some (Array xs)) (Array ys) =
     (if length ys = length xs then Inr (Array (map2 fadd xs ys))
      else if length ys = 1 then Inr (Array (map (\<lambda>x. fadd x (hd ys)) xs))
      else Inl ValueError)"
| "v_add _ (CountsDict d) = Inl TypeError"
| "v_add (Some (CountsDict d)) _ = Inl TypeError"

fun v_div :: "value option \<Rightarrow> nat \<Rightarrow> error + value" where
  "v_div None n = (if n = 0 then Inl ZeroDivisionError else Inr (PyFloat (Fin 0)))"
| "v_div (Some (PyFloat x)) n =
     (if n = 0 then Inl ZeroDivisionError else Inr (PyFloat (fdiv x n)))"
| "v_div (Some (Scalar x)) n = Inr (Scalar (fdiv x n))"
| "v_div (Some (Array xs)) n = Inr (Array (map (\<lambda>x. fdiv x n) xs))"
| "v_div (Some (CountsDict d)) n = Inl TypeError"

text \<open>The loop of \<^verbatim>\<open>combine_measurements_core\<close> for expectations and probabilities.\<close>

fun weighted_loop ::
  "(nat \<times> value) list \<Rightarrow> value option \<Rightarrow> nat \<Rightarrow> error + (value option \<times> nat)" where
  "weighted_loop [] cum_value total_counts = Inr (cum_value, total_counts)"
| "weighted_loop (v # vs) cum_value total_counts =
     (case v_scale (fst v) (snd v) of
        Inl e \<Rightarrow> Inl e
      | Inr x \<Rightarrow>
          (case v_add cum_value x of
             Inl e \<Rightarrow> Inl e
           | Inr c \<Rightarrow> weighted_loop vs (Some c) (total_counts + fst v)))"

text \<open>\<^verbatim>\<open>Counter.update\<close> with a dictionary, and the loop of the counts case.\<close>

fun counter_update_all :: "(string \<times> int) list \<Rightarrow> (string \<times> int) list \<Rightarrow> (string \<times> int) list" where
  "counter_update_all [] counter = counter"
| "counter_update_all ((k, c) # d) counter = counter_update_all d (counter_update k c counter)"

fun counts_loop :: "value list \<Rightarrow> (string \<times> int) list \<Rightarrow> error + (string \<times> int) list" where
  "counts_loop [] new_counts = Inr new_counts"
| "counts_loop (CountsDict d # vs) new_counts = counts_loop vs (counter_update_all d new_counts)"
| "counts_loop (PyFloat _ # vs) new_counts = Inl TypeError"
| "counts_loop (Scalar _ # vs) new_counts = Inl TypeError"
| "counts_loop (Array _ # vs) new_counts = Inl Unmodelled"

text \<open>
  \<^verbatim>\<open>np.concatenate\<close> raises for an empty tuple and for a zero-dimensional entry;
  \<^verbatim>\<open>np.squeeze\<close> turns an array of one entry into a scalar.
\<close>

fun np_concatenate :: "value list \<Rightarrow> error + fl list" where
  "np_concatenate [] = Inl ValueError"
| "np_concatenate [Array xs] = Inr xs"
| "np_concatenate (Array xs # vs) =
     (case np_concatenate vs of Inl e \<Rightarrow> Inl e | Inr ys \<Rightarrow> Inr (xs @ ys))"
| "np_concatenate (_ # vs) = Inl ValueError"

fun np_squeeze :: "value \<Rightarrow> value" where
  "np_squeeze (PyFloat x) = Scalar x"
| "np_squeeze (Array [x]) = Scalar x"
| "np_squeeze v = v"

text \<open>
  The dictionary \<^verbatim>\<open>measures\<close> maps a branch to a pair of a shot count and a value, in
  insertion order; \<open>single_values\<close> reads its values.
\<close>

fun single_values :: "('b \<times> nat \<times> result) list \<Rightarrow> error + (nat \<times> value) list" where
  "single_values [] = Inr []"
| "single_values ((b, c, Single v) # ms) =
     (case single_values ms of Inl e \<Rightarrow> Inl e | Inr vs \<Rightarrow> Inr ((c, v) # vs))"
| "single_values ((b, c, Multi _) # ms) = Inl Unmodelled"

text \<open>\<^verbatim>\<open>combine_measurements_core\<close>, dispatched on the kind of the original measurement.\<close>

definition combine_measurements_core ::
  "mp_kind \<Rightarrow> (int \<times> nat \<times> result) list \<Rightarrow> error + value" where
  "combine_measurements_core original_measurement measures' =
     (case original_measurement of
        OtherMP _ \<Rightarrow> Inl TypeError
      | CountsMP \<Rightarrow>
          (case single_values measures' of
             Inl e \<Rightarrow> Inl e
           | Inr vs \<Rightarrow>
               (case counts_loop (map snd vs) [] of
                  Inl e \<Rightarrow> Inl e
                | Inr new_counts \<Rightarrow> Inr (CountsDict new_counts)))
      | SampleMP \<Rightarrow>
          (case single_values measures' of
             Inl e \<Rightarrow> Inl e
           | Inr vs \<Rightarrow>
               (case np_concatenate (map snd vs) of
                  Inl e \<Rightarrow> Inl e
                | Inr new_sample \<Rightarrow> Inr (np_squeeze (Array new_sample))))
      | VarianceMP \<Rightarrow>
          (case single_values measures' of
             Inl e \<Rightarrow> Inl e
           | Inr vs \<Rightarrow>
               (case np_concatenate (map snd vs) of
                  Inl e \<Rightarrow> Inl e
                | Inr new_sample \<Rightarrow> Inr (np_squeeze (Array new_sample))))
      | _ \<Rightarrow>
          (case single_values measures' of
             Inl e \<Rightarrow> Inl e
           | Inr vs \<Rightarrow>
               (case weighted_loop vs None 0 of
                  Inl e \<Rightarrow> Inl e
                | Inr (cum_value, total_counts) \<Rightarrow> v_div cum_value total_counts)))"

section \<open>Combining the measurements of the branches\<close>

text \<open>
  \<^verbatim>\<open>measurement_with_no_shots\<close>: \<^verbatim>\<open>np.nan * np.ones_like(measurement.eigvals())\<close> for a
  probability measurement, which is an array of NaN of the shape of the eigenvalues, and
  the single value NaN when \<^verbatim>\<open>eigvals()\<close> is \<^verbatim>\<open>None\<close>; the Python float \<^verbatim>\<open>np.nan\<close> for every other
  measurement.
\<close>

definition measurement_with_no_shots :: "measurement \<Rightarrow> value" where
  "measurement_with_no_shots m =
     (if mp_kind m = ProbabilityMP
      then (case mp_eigvals m of
              None \<Rightarrow> PyFloat NaN
            | Some n \<Rightarrow> Array (replicate n NaN))
      else PyFloat NaN)"

text \<open>
  The conversion of a dictionary of tuples into a list of dictionaries at the head of
  \<^verbatim>\<open>combine_measurements\<close>. Iterating over a result yields the entries of a tuple or of an
  array and raises for a scalar; \<open>zip_star\<close> is \<^verbatim>\<open>zip(*ds)\<close>; unpacking a row into the two
  names \<^verbatim>\<open>m0, m1\<close> raises unless there are exactly two branches.
\<close>

fun iterate_result :: "result \<Rightarrow> error + value list" where
  "iterate_result (Multi vs) = Inr vs"
| "iterate_result (Single (Array xs)) = Inr (map Scalar xs)"
| "iterate_result (Single (PyFloat _)) = Inl TypeError"
| "iterate_result (Single (Scalar _)) = Inl TypeError"
| "iterate_result (Single (CountsDict _)) = Inl Unmodelled"

fun build_ds :: "(int \<times> nat \<times> result) list \<Rightarrow> error + (nat \<times> result) list list" where
  "build_ds [] = Inr []"
| "build_ds ((b, c, r) # ms) =
     (case iterate_result r of
        Inl e \<Rightarrow> Inl e
      | Inr vs \<Rightarrow>
          (case build_ds ms of
             Inl e \<Rightarrow> Inl e
           | Inr ds \<Rightarrow> Inr (map (\<lambda>m. (c, Single m)) vs # ds)))"

definition zip_star :: "'a list list \<Rightarrow> 'a list list" where
  "zip_star ds =
     (case ds of
        [] \<Rightarrow> []
      | d # _ \<Rightarrow> map (\<lambda>i. map (\<lambda>d. d ! i) ds) [0..<fold min (map length ds) (length d)])"

definition list_of_dicts ::
  "int list \<Rightarrow> (nat \<times> result) list list \<Rightarrow> error + (int \<times> nat \<times> result) list list" where
  "list_of_dicts keys ds =
     (if zip_star ds = [] then Inr []
      else if length ds \<noteq> 2 then Inl ValueError
      else Inr (map (\<lambda>row. [(keys ! 0, row ! 0), (keys ! 1, row ! 1)]) (zip_star ds)))"

fun is_Sequence :: "result \<Rightarrow> bool" where
  "is_Sequence (Multi _) = True"
| "is_Sequence (Single _) = False"

text \<open>\<^verbatim>\<open>qml.math.var\<close>: the variance of the entries, NaN as soon as one is not finite.\<close>

fun fins :: "fl list \<Rightarrow> real list option" where
  "fins [] = Some []"
| "fins (Fin r # xs) = map_option ((#) r) (fins xs)"
| "fins (_ # xs) = None"

definition variance :: "real list \<Rightarrow> real" where
  "variance rs = (\<Sum>r\<leftarrow>rs. (r - sum_list rs / real (length rs))\<^sup>2) / real (length rs)"

fun math_var :: "value \<Rightarrow> error + value" where
  "math_var (PyFloat x) = Inr (Scalar (case x of Fin _ \<Rightarrow> Fin 0 | _ \<Rightarrow> NaN))"
| "math_var (Scalar x) = Inr (Scalar (case x of Fin _ \<Rightarrow> Fin 0 | _ \<Rightarrow> NaN))"
| "math_var (Array xs) =
     Inr (Scalar (if xs = [] then NaN
                  else (case fins xs of None \<Rightarrow> NaN | Some rs \<Rightarrow> Fin (variance rs))))"
| "math_var (CountsDict _) = Inl TypeError"

text \<open>
  The dictionary \<^verbatim>\<open>mcm_samples\<close> maps a mid-circuit measurement to the array of its recorded
  samples, in insertion order.
\<close>

type_synonym mcm_samples = "(operation \<times> fl list) list"

text \<open>
  The loop of \<^verbatim>\<open>combine_measurements\<close> over the measurements of the circuit;
  \<open>new_measurements\<close> is consumed from the front. The function \<^verbatim>\<open>gather_mcm\<close> is passed in:
  the one of \<^verbatim>\<open>dynamic_one_shot.py\<close> has a third required argument that this call does not
  give it.
\<close>

fun combine_loop ::
  "(measurement \<Rightarrow> mcm_samples \<Rightarrow> error + value) \<Rightarrow> bool \<Rightarrow> mcm_samples \<Rightarrow> measurement list
     \<Rightarrow> (int \<times> nat \<times> result) list list \<Rightarrow> error + value list" where
  "combine_loop gather_mcm empty_mcm_samples mcm_samples [] new_measurements = Inr []"
| "combine_loop gather_mcm empty_mcm_samples mcm_samples (circ_meas # rest) new_measurements =
     (case (if mp_mv circ_meas \<noteq> None \<and> empty_mcm_samples
              then Inr (measurement_with_no_shots circ_meas, new_measurements)
            else if mp_mv circ_meas \<noteq> None
              then (case gather_mcm circ_meas mcm_samples of
                      Inl e \<Rightarrow> Inl e
                    | Inr v \<Rightarrow> Inr (v, new_measurements))
            else if new_measurements = [] \<or> hd new_measurements = []
              then Inr (measurement_with_no_shots circ_meas, tl new_measurements)
            else (case combine_measurements_core (mp_kind circ_meas) (hd new_measurements) of
                    Inl e \<Rightarrow> Inl e
                  | Inr v \<Rightarrow> Inr (v, tl new_measurements))) of
        Inl e \<Rightarrow> Inl e
      | Inr (comb_meas, queue) \<Rightarrow>
          (case combine_loop gather_mcm empty_mcm_samples mcm_samples rest queue of
             Inl e \<Rightarrow> Inl e
           | Inr final \<Rightarrow>
               Inr ((if mp_kind circ_meas = SampleMP then np_squeeze comb_meas else comb_meas)
                    # final)))"

text \<open>The special treatment of variances after the loop.\<close>

fun var_pass :: "measurement list \<Rightarrow> value list \<Rightarrow> error + value list" where
  "var_pass (c # cs) (m # ms) =
     (case (if mp_mv c = None \<and> mp_kind c = VarianceMP then math_var m else Inr m) of
        Inl e \<Rightarrow> Inl e
      | Inr m' \<Rightarrow> (case var_pass cs ms of Inl e \<Rightarrow> Inl e | Inr ms' \<Rightarrow> Inr (m' # ms')))"
| "var_pass _ ms = Inr ms"

text \<open>
  \<^verbatim>\<open>combine_measurements\<close>. The dictionary \<^verbatim>\<open>measurements\<close> maps a branch to a shot count and
  the result of that branch.
\<close>

definition combine_measurements ::
  "(measurement \<Rightarrow> mcm_samples \<Rightarrow> error + value) \<Rightarrow> tape \<Rightarrow> (int \<times> nat \<times> result) list
     \<Rightarrow> mcm_samples \<Rightarrow> error + result" where
  "combine_measurements gather_mcm circuit measurements' mcm_samples =
     (case (if measurements' \<noteq> [] \<and> is_Sequence (snd (snd (hd measurements')))
            then (case build_ds measurements' of
                    Inl e \<Rightarrow> Inl e
                  | Inr ds \<Rightarrow> list_of_dicts (map fst measurements') ds)
            else Inr [measurements']) of
        Inl e \<Rightarrow> Inl e
      | Inr new_measurements \<Rightarrow>
          (case mcm_samples of
             [] \<Rightarrow> Inl StopIteration
           | (_, first_samples) # _ \<Rightarrow>
               if length first_samples = 0 \<and> list_ex (\<lambda>(k, m). length m \<noteq> 0) mcm_samples
               then Inl ValueError
               else (case combine_loop gather_mcm (length first_samples = 0) mcm_samples
                            (measurements circuit) new_measurements of
                       Inl e \<Rightarrow> Inl e
                     | Inr final \<Rightarrow>
                         (case var_pass (measurements circuit) final of
                            Inl e \<Rightarrow> Inl e
                          | Inr final_measurements \<Rightarrow>
                              Inr (if length final_measurements = 1
                                   then Single (hd final_measurements)
                                   else Multi final_measurements)))))"

definition counts_wire0 :: measurement where
  "counts_wire0 = \<lparr>mp_kind = CountsMP, mp_obs = None, mp_wires = [0],
                   mp_mv = None, mp_eigvals = None, mp_all_outcomes = False\<rparr>"

section \<open>States and their collapse\<close>

text \<open>
  A state is a tensor with one axis of size two per wire: a complete binary tree whose
  depth is the number of wires, the first axis at the root. \<open>zero_slice axis i\<close> is the
  assignment \<^verbatim>\<open>state[tuple(slices)] = 0.0\<close> with \<^verbatim>\<open>slices[axis] = i\<close>, which raises when the
  state has no such axis. Amplitudes are complex numbers; rounding is not modelled.
\<close>

datatype tensor = Leaf complex | Node tensor tensor

fun has_ndim :: "nat \<Rightarrow> tensor \<Rightarrow> bool" where
  "has_ndim 0 (Leaf _) = True"
| "has_ndim (Suc n) (Node l r) = (has_ndim n l \<and> has_ndim n r)"
| "has_ndim _ _ = False"

fun zeros_like :: "tensor \<Rightarrow> tensor" where
  "zeros_like (Leaf _) = Leaf 0"
| "zeros_like (Node l r) = Node (zeros_like l) (zeros_like r)"

fun zero_slice :: "nat \<Rightarrow> nat \<Rightarrow> tensor \<Rightarrow> error + tensor" where
  "zero_slice axis i (Leaf _) = Inl IndexError"
| "zero_slice 0 i (Node l r) = Inr (if i = 0 then Node (zeros_like l) r else Node l (zeros_like r))"
| "zero_slice (Suc axis) i (Node l r) =
     (case zero_slice axis i l of
        Inl e \<Rightarrow> Inl e
      | Inr l' \<Rightarrow> (case zero_slice axis i r of Inl e \<Rightarrow> Inl e | Inr r' \<Rightarrow> Inr (Node l' r')))"

fun norm_sq :: "tensor \<Rightarrow> real" where
  "norm_sq (Leaf z) = (cmod z)\<^sup>2"
| "norm_sq (Node l r) = norm_sq l + norm_sq r"

definition linalg_norm :: "tensor \<Rightarrow> real" where
  "linalg_norm t = sqrt (norm_sq t)"

fun divide_tensor :: "tensor \<Rightarrow> real \<Rightarrow> tensor" where
  "divide_tensor (Leaf z) c = Leaf (z / complex_of_real c)"
| "divide_tensor (Node l r) c = Node (divide_tensor l c) (divide_tensor r c)"

text \<open>
  Modelled from the spec: \<^verbatim>\<open>apply_operation\<close> is not part of the sources at hand. The spec
  calls the operation applied for a reset a bit-flip: it exchanges the two halves of the
  state along the axis of the wire.
\<close>

fun apply_PauliX :: "nat \<Rightarrow> tensor \<Rightarrow> tensor" where
  "apply_PauliX wire (Leaf z) = Leaf z"
| "apply_PauliX 0 (Node l r) = Node r l"
| "apply_PauliX (Suc wire) (Node l r) = Node (apply_PauliX wire l) (apply_PauliX wire r)"

text \<open>
  \<^verbatim>\<open>branch_state\<close>, the inner function of \<^verbatim>\<open>branch_measurement\<close>; the index zeroed is
  \<^verbatim>\<open>int(not branch)\<close>.
\<close>

definition branch_state :: "operation \<Rightarrow> tensor \<Rightarrow> nat \<Rightarrow> int \<Rightarrow> error + tensor" where
  "branch_state op state wire branch =
     (case zero_slice wire (if branch = 0 then 1 else 0) state of
        Inl e \<Rightarrow> Inl e
      | Inr projected \<Rightarrow>
          if linalg_norm projected < 1 / 10 ^ 15 then Inl ValueError
          else if reset op \<and> branch = 1
               then Inr (apply_PauliX wire (divide_tensor projected (linalg_norm projected)))
               else Inr (divide_tensor projected (linalg_norm projected)))"

text \<open>\<open>slice_is_zero axis i t\<close>: every amplitude of \<open>t\<close> with index \<open>i\<close> on the axis is zero.\<close>

fun all_zero :: "tensor \<Rightarrow> bool" where
  "all_zero (Leaf z) = (z = 0)"
| "all_zero (Node l r) = (all_zero l \<and> all_zero r)"

fun slice_is_zero :: "nat \<Rightarrow> nat \<Rightarrow> tensor \<Rightarrow> bool" where
  "slice_is_zero axis i (Leaf z) = False"
| "slice_is_zero 0 i (Node l r) = (if i = 0 then all_zero l else all_zero r)"
| "slice_is_zero (Suc axis) i (Node l r) = (slice_is_zero axis i l \<and> slice_is_zero axis i r)"


section \<open>The tree simulator\<close>

text \<open>
  The dictionaries \<^verbatim>\<open>mcm_active\<close> and \<^verbatim>\<open>mcm_samples\<close> are association lists in insertion
  order; assigning to a key that is present keeps its position.
\<close>

type_synonym mcm_active = "(operation \<times> int) list"

fun dict_get :: "'k \<Rightarrow> ('k \<times> 'v) list \<Rightarrow> 'v option" where
  "dict_get k [] = None"
| "dict_get k ((k', v) # d) = (if k' = k then Some v else dict_get k d)"

fun dict_set :: "'k \<Rightarrow> 'v \<Rightarrow> ('k \<times> 'v) list \<Rightarrow> ('k \<times> 'v) list" where
  "dict_set k v [] = [(k, v)]"
| "dict_set k v ((k', v') # d) = (if k' = k then (k', v) # d else (k', v') # dict_set k v d)"

text \<open>
  The masks of \<^verbatim>\<open>prune_mcm_samples\<close> and \<^verbatim>\<open>update_mcm_samples\<close>: \<^verbatim>\<open>mcm_samples[k] == v\<close>,
  \<^verbatim>\<open>np.logical_and\<close> with its broadcasting, and the loop over \<^verbatim>\<open>mcm_active\<close> that stops at
  the measurement itself.
\<close>

definition np_eq :: "fl list \<Rightarrow> int \<Rightarrow> bool list" where
  "np_eq arr v = map (\<lambda>x. x = Fin (of_int v)) arr"

definition logical_and :: "bool list \<Rightarrow> bool list \<Rightarrow> error + bool list" where
  "logical_and a b =
     (if length a = length b then Inr (map2 (\<and>) a b)
      else if length b = 1 then Inr (map (\<lambda>x. x \<and> hd b) a)
      else if length a = 1 then Inr (map (\<lambda>y. hd a \<and> y) b)
      else Inl ValueError)"

fun mask_loop :: "operation \<Rightarrow> mcm_active \<Rightarrow> mcm_samples \<Rightarrow> bool list \<Rightarrow> error + bool list" where
  "mask_loop op [] mcm_samples msk = Inr msk"
| "mask_loop op ((k, v) # rest) mcm_samples msk =
     (if k = op then Inr msk
      else (case dict_get k mcm_samples of
              None \<Rightarrow> Inl KeyError
            | Some arr \<Rightarrow>
                (case logical_and msk (np_eq arr v) of
                   Inl e \<Rightarrow> Inl e
                 | Inr msk' \<Rightarrow> mask_loop op rest mcm_samples msk')))"

text \<open>\<^verbatim>\<open>arr[mask]\<close>, applied to every entry of \<^verbatim>\<open>mcm_samples\<close> by \<^verbatim>\<open>prune_mcm_samples\<close>.\<close>

definition boolean_index :: "'a list \<Rightarrow> bool list \<Rightarrow> error + 'a list" where
  "boolean_index arr msk =
     (if length msk \<noteq> length arr then Inl IndexError
      else Inr (map fst (filter snd (zip arr msk))))"

fun prune_all :: "mcm_samples \<Rightarrow> bool list \<Rightarrow> error + mcm_samples" where
  "prune_all [] keep = Inr []"
| "prune_all ((k, arr) # d) keep =
     (case boolean_index arr keep of
        Inl e \<Rightarrow> Inl e
      | Inr arr' \<Rightarrow> (case prune_all d keep of Inl e \<Rightarrow> Inl e | Inr d' \<Rightarrow> Inr ((k, arr') # d')))"

definition prune_mcm_samples ::
  "operation \<Rightarrow> int \<Rightarrow> mcm_active \<Rightarrow> mcm_samples \<Rightarrow> error + mcm_samples" where
  "prune_mcm_samples op branch mcm_active mcm_samples =
     (case dict_get op mcm_samples of
        None \<Rightarrow> Inl KeyError
      | Some arr \<Rightarrow>
          (case mask_loop op mcm_active mcm_samples (np_eq arr branch) of
             Inl e \<Rightarrow> Inl e
           | Inr msk \<Rightarrow> prune_all mcm_samples (map Not msk)))"

text \<open>
  \<^verbatim>\<open>arr[mask] = samples\<close> and \<^verbatim>\<open>update_mcm_samples\<close>. The contents of \<^verbatim>\<open>np.empty\<close> are not
  determined by the program and are a parameter.
\<close>

fun assign_where :: "'a list \<Rightarrow> bool list \<Rightarrow> 'a list \<Rightarrow> 'a list" where
  "assign_where (a # arr) (True # msk) (s # samples) = s # assign_where arr msk samples"
| "assign_where (a # arr) (False # msk) samples = a # assign_where arr msk samples"
| "assign_where arr _ _ = arr"

definition masked_assign :: "'a list \<Rightarrow> bool list \<Rightarrow> 'a list \<Rightarrow> error + 'a list" where
  "masked_assign arr msk samples =
     (if length msk \<noteq> length arr then Inl IndexError
      else if length samples = length (filter id msk) then Inr (assign_where arr msk samples)
      else if length samples = 1
        then Inr (assign_where arr msk (replicate (length (filter id msk)) (hd samples)))
      else Inl ValueError)"

definition update_mcm_samples ::
  "(nat \<Rightarrow> fl list) \<Rightarrow> operation \<Rightarrow> fl list \<Rightarrow> mcm_active \<Rightarrow> mcm_samples \<Rightarrow> error + mcm_samples" where
  "update_mcm_samples np_empty op samples mcm_active mcm_samples =
     (if mcm_active \<noteq> [] then
        (case mcm_samples of
           [] \<Rightarrow> Inl StopIteration
         | (_, first_samples) # _ \<Rightarrow>
             (case mask_loop op mcm_active mcm_samples (replicate (length first_samples) True) of
                Inl e \<Rightarrow> Inl e
              | Inr msk \<Rightarrow>
                  (case masked_assign
                          (case dict_get op mcm_samples of
                             None \<Rightarrow> np_empty (length first_samples)
                           | Some arr \<Rightarrow> arr)
                          msk samples of
                     Inl e \<Rightarrow> Inl e
                   | Inr arr' \<Rightarrow> Inr (dict_set op arr' mcm_samples))))
      else Inr (dict_set op samples mcm_samples))"

text \<open>
  \<^verbatim>\<open>samples_to_counts\<close>: \<^verbatim>\<open>np.unique\<close> yields the distinct samples in ascending order with
  their counts; each value is converted with \<^verbatim>\<open>int\<close>, which truncates and raises for a
  value that is not finite, and the pairs are stored in a dictionary in that order.
\<close>

fun fin_value :: "fl \<Rightarrow> real" where
  "fin_value (Fin r) = r"
| "fin_value _ = 0"

definition py_int :: "real \<Rightarrow> int" where
  "py_int r = (if 0 \<le> r then \<lfloor>r\<rfloor> else \<lceil>r\<rceil>)"

definition samples_to_counts :: "fl list \<Rightarrow> error + (int \<times> nat) list" where
  "samples_to_counts samples =
     (if NInf \<in> set samples \<or> PInf \<in> set samples then Inl OverflowError
      else if NaN \<in> set samples then Inl ValueError
      else Inr (fold (\<lambda>r counts. dict_set (py_int r) (count_list (map fin_value samples) r) counts)
                  (sort (remdups (map fin_value samples))) []))"

text \<open>
  \<^verbatim>\<open>circuit_up_to_first_mcm\<close> returns the circuit up to the first mid-circuit measurement,
  which samples the measured wire, and, when there is such a measurement, the circuit after
  it together with the measurement.
\<close>

definition sample_wires :: "nat list \<Rightarrow> measurement" where
  "sample_wires ws = \<lparr>mp_kind = SampleMP, mp_obs = None, mp_wires = ws,
                      mp_mv = None, mp_eigvals = None, mp_all_outcomes = False\<rparr>"

fun next_measurements :: "measurement list \<Rightarrow> measurement list" where
  "next_measurements [] = []"
| "next_measurements (m # ms) =
     (if mp_mv m = None
      then (if mp_kind m = VarianceMP then sample_obs m else m) # next_measurements ms
      else next_measurements ms)"

definition circuit_up_to_first_mcm :: "tape \<Rightarrow> tape \<times> (tape \<times> operation) option" where
  "circuit_up_to_first_mcm circuit =
     (case dropWhile (\<lambda>op. \<not> is_MidMeasureMP op) (operations circuit) of
        [] \<Rightarrow> (circuit, None)
      | op # after \<Rightarrow>
          (circuit\<lparr>operations := takeWhile (\<lambda>op. \<not> is_MidMeasureMP op) (operations circuit),
                   measurements := [sample_wires [mm_wire op]]\<rparr>,
           Some (circuit\<lparr>operations := after,
                         measurements := next_measurements (measurements circuit)\<rparr>, op)))"

text \<open>
  The functions of the simulator that are not part of the tree traversal are collected in
  an environment: creating the initial state, running the gates, measuring the final state
  (which draws from the random generator \<open>'g\<close>), \<^verbatim>\<open>gather_mcm\<close> and the contents of
  \<^verbatim>\<open>np.empty\<close>. The state of a traversal is made of the two dictionaries, the generator, and
  a record of the branches that were simulated, which the program does not keep: each call
  of \<^verbatim>\<open>branch_measurement\<close> appends its measurement and branch to \<open>st_explored\<close>.
\<close>

record 'g sim_env =
  env_create_initial_state :: "tape \<Rightarrow> tensor"
  env_get_final_state :: "tape \<Rightarrow> tensor \<Rightarrow> mcm_active \<Rightarrow> tensor \<times> bool"
  env_measure_final_state :: "tape \<Rightarrow> tensor \<Rightarrow> bool \<Rightarrow> 'g \<Rightarrow> result \<times> 'g"
  env_gather_mcm :: "measurement \<Rightarrow> mcm_samples \<Rightarrow> error + value"
  env_np_empty :: "nat \<Rightarrow> fl list"

record 'g sim_state =
  st_mcm_active :: mcm_active
  st_mcm_samples :: mcm_samples
  st_rng :: 'g
  st_explored :: "(operation \<times> int) list"

text \<open>\<^verbatim>\<open>measurements.reshape((-1)) if measurements.ndim == 0 else measurements\<close>.\<close>

fun as_samples :: "result \<Rightarrow> error + fl list" where
  "as_samples (Single (Scalar x)) = Inr [x]"
| "as_samples (Single (Array xs)) = Inr xs"
| "as_samples _ = Inl AttributeError"

lemma circuit_next_shorter:
  "circuit_up_to_first_mcm circuit = (base, Some (nxt, op)) \<Longrightarrow>
     length (operations nxt) < length (operations circuit)"
proof -
  assume a: "circuit_up_to_first_mcm circuit = (base, Some (nxt, op))"
  then obtain after where d: "dropWhile (\<lambda>op. \<not> is_MidMeasureMP op) (operations circuit) = op # after"
    and n: "operations nxt = after"
    by (auto simp: circuit_up_to_first_mcm_def split: list.splits)
  have "length (dropWhile (\<lambda>op. \<not> is_MidMeasureMP op) (operations circuit))
          \<le> length (operations circuit)"
    by (rule length_dropWhile_le)
  with d n show ?thesis by simp
qed

text \<open>
  The main part of \<^verbatim>\<open>simulate_tree_mcm\<close> (\<open>tree\<close>) and its loop over the branches
  (\<open>branch_loop\<close>), which calls \<^verbatim>\<open>branch_measurement\<close> and so \<^verbatim>\<open>simulate_tree_mcm\<close> again on
  the circuit after the measurement.
\<close>

function (sequential)
  tree :: "'g sim_env \<Rightarrow> tape \<Rightarrow> tensor option \<Rightarrow> 'g sim_state \<Rightarrow> error + (result \<times> 'g sim_state)"
  and branch_loop :: "'g sim_env \<Rightarrow> operation \<Rightarrow> tape \<Rightarrow> tensor \<Rightarrow> (int \<times> nat) list
     \<Rightarrow> 'g sim_state \<Rightarrow> error + (result list \<times> 'g sim_state)"
where
  "tree env circuit initial_state st =
     (case circuit_up_to_first_mcm circuit of
        (circuit_base, nxt) \<Rightarrow>
          (case env_get_final_state env circuit_base
                  (case initial_state of
                     None \<Rightarrow> env_create_initial_state env circuit_base
                   | Some s \<Rightarrow> s)
                  (st_mcm_active st) of
             (state, is_state_batched) \<Rightarrow>
               (case env_measure_final_state env circuit_base state is_state_batched
                       (st_rng st) of
                  (measurements', g) \<Rightarrow>
                    (case nxt of
                       None \<Rightarrow> Inr (measurements', st\<lparr>st_rng := g\<rparr>)
                     | Some (circuit_next, op) \<Rightarrow>
                         (case as_samples measurements' of
                            Inl e \<Rightarrow> Inl e
                          | Inr samples \<Rightarrow>
                              (case update_mcm_samples (env_np_empty env) op samples
                                      (st_mcm_active st) (st_mcm_samples st) of
                                 Inl e \<Rightarrow> Inl e
                               | Inr mcm_samples \<Rightarrow>
                                   (case samples_to_counts samples of
                                      Inl e \<Rightarrow> Inl e
                                    | Inr counts \<Rightarrow>
                                        (case branch_loop env op circuit_next state counts
                                                (st\<lparr>st_mcm_samples := mcm_samples,
                                                    st_rng := g\<rparr>) of
                                           Inl e \<Rightarrow> Inl e
                                         | Inr (values, st') \<Rightarrow>
                                             (case combine_measurements (env_gather_mcm env)
                                                     circuit
                                                     (zip (map fst counts)
                                                        (zip (map snd counts) values))
                                                     (st_mcm_samples st') of
                                                Inl e \<Rightarrow> Inl e
                                              | Inr r \<Rightarrow> Inr (r, st'))))))))))"
| "branch_loop env op circuit_next state [] st = Inr ([], st)"
| "branch_loop env op circuit_next state ((branch, count) # rest) st =
     (if postselect op \<noteq> None \<and> Some branch \<noteq> postselect op
      then (case prune_mcm_samples op branch (st_mcm_active st) (st_mcm_samples st) of
              Inl e \<Rightarrow> Inl e
            | Inr mcm_samples \<Rightarrow>
                branch_loop env op circuit_next state rest (st\<lparr>st_mcm_samples := mcm_samples\<rparr>))
      else (case branch_state op state (mm_wire op) branch of
              Inl e \<Rightarrow> Inl e
            | Inr new_state \<Rightarrow>
                (case tree env (circuit_next\<lparr>shots := Some [count]\<rparr>) (Some new_state)
                        (st\<lparr>st_mcm_active := dict_set op branch (st_mcm_active st),
                            st_explored := st_explored st @ [(op, branch)]\<rparr>) of
                   Inl e \<Rightarrow> Inl e
                 | Inr (v, st') \<Rightarrow>
                     (case branch_loop env op circuit_next state rest st' of
                        Inl e \<Rightarrow> Inl e
                      | Inr (vs, st'') \<Rightarrow> Inr (v # vs, st'')))))"
  by pat_completeness auto
termination
  apply (relation "inv_image (less_than <*lex*> less_than)
     (\<lambda>x. case x of
        Inl (env, circuit, initial_state, st) \<Rightarrow> (length (operations circuit), 0)
      | Inr (env, op, circuit_next, state, bs, st) \<Rightarrow>
          (length (operations circuit_next), Suc (length bs)))")
     apply (auto dest: circuit_next_shorter [OF sym])
  done



text \<open>
  Notions for stating what pruning removes: the sample that \<^verbatim>\<open>mcm_samples\<close> records for a
  measurement at a position, the entries of \<^verbatim>\<open>mcm_active\<close> before a measurement (its
  ancestors in the tree), and the positions whose recorded history is a given branch of the
  measurement under these ancestors.
\<close>

definition respects_postselect :: "(operation \<times> int) list \<Rightarrow> bool" where
  "respects_postselect xs = list_all (\<lambda>(op, b). postselect op = None \<or> postselect op = Some b) xs"


definition sample_at :: "mcm_samples \<Rightarrow> operation \<Rightarrow> nat \<Rightarrow> fl" where
  "sample_at d k i = (case dict_get k d of None \<Rightarrow> NaN | Some arr \<Rightarrow> arr ! i)"

definition ancestors :: "operation \<Rightarrow> mcm_active \<Rightarrow> mcm_active" where
  "ancestors op mcm_active = takeWhile (\<lambda>(k, v). k \<noteq> op) mcm_active"

definition on_branch :: "operation \<Rightarrow> int \<Rightarrow> mcm_active \<Rightarrow> mcm_samples \<Rightarrow> nat \<Rightarrow> bool" where
  "on_branch op branch mcm_active d i =
     (sample_at d op i = Fin (of_int branch)
      \<and> (\<forall>(k, v) \<in> set (ancestors op mcm_active). sample_at d k i = Fin (of_int v)))"

definition samples_wf :: "nat \<Rightarrow> operation \<Rightarrow> mcm_active \<Rightarrow> mcm_samples \<Rightarrow> bool" where
  "samples_wf n op mcm_active d =
     ((\<forall>(k, arr) \<in> set d. length arr = n) \<and> dict_get op d \<noteq> None
      \<and> (\<forall>(k, v) \<in> set (ancestors op mcm_active). dict_get k d \<noteq> None))"

text \<open>
  \<^verbatim>\<open>simulate_tree_mcm\<close>. With partitioned shots the simulation is run once per entry of the
  shot vector, each run with new dictionaries, and the results are returned as a tuple;
  otherwise the main part runs with the dictionaries the call was given, which are empty at
  the top level.
\<close>

datatype results = OneResult result | PerShots "result list"

definition fresh_state :: "'g \<Rightarrow> 'g sim_state" where
  "fresh_state g = \<lparr>st_mcm_active = [], st_mcm_samples = [], st_rng = g, st_explored = []\<rparr>"

fun shot_vector_loop ::
  "'g sim_env \<Rightarrow> tape \<Rightarrow> nat list \<Rightarrow> 'g \<Rightarrow> error + (result list \<times> 'g)" where
  "shot_vector_loop env circuit [] g = Inr ([], g)"
| "shot_vector_loop env circuit (s # ss) g =
     (case tree env (circuit\<lparr>shots := Some [s]\<rparr>) None (fresh_state g) of
        Inl e \<Rightarrow> Inl e
      | Inr (r, st) \<Rightarrow>
          (case shot_vector_loop env circuit ss (st_rng st) of
             Inl e \<Rightarrow> Inl e
           | Inr (rs, g') \<Rightarrow> Inr (r # rs, g')))"

definition simulate_tree_mcm :: "'g sim_env \<Rightarrow> tape \<Rightarrow> 'g \<Rightarrow> error + (results \<times> 'g)" where
  "simulate_tree_mcm env circuit g =
     (if has_partitioned_shots (shots circuit)
      then (case shot_vector_loop env circuit (the (shots circuit)) g of
              Inl e \<Rightarrow> Inl e
            | Inr (rs, g') \<Rightarrow> Inr (PerShots rs, g'))
      else (case tree env circuit None (fresh_state g) of
              Inl e \<Rightarrow> Inl e
            | Inr (r, st) \<Rightarrow> Inr (OneResult r, st_rng st)))"

section \<open>The postprocessing of the one-shot transform (\<^verbatim>\<open>transforms/dynamic_one_shot.py\<close>)\<close>

text \<open>
  The data that \<^verbatim>\<open>processing_fn\<close> handles. A key of a dictionary of counts is a string or a
  number. \<open>Num\<close> is a number or an array without axes, \<open>Vec\<close> an array with one axis, \<open>Mat\<close> an
  array with two axes given by its rows, which all have the same length; \<open>Dict\<close> is a
  dictionary of counts, also when an array without axes holds it, and \<open>Dicts\<close> a list or an
  array with one axis of such dictionaries. A Python object is such a datum or a tuple (or
  list) of objects. All arrays are NumPy arrays: the interface that
  \<^verbatim>\<open>parse_native_mid_circuit_measurements\<close> reads off the results is \<^verbatim>\<open>numpy\<close>.
\<close>

datatype ckey = KStr string | KNum real

type_synonym counts = "(ckey \<times> int) list"

datatype data =
    Num fl
  | Vec "fl list"
  | Mat "fl list list"
  | Dict counts
  | Dicts "counts list"

datatype pyobj = Data data | Tuple "pyobj list"

text \<open>
  What \<^verbatim>\<open>processing_fn\<close> takes from its surroundings: the methods \<^verbatim>\<open>concretize\<close> and \<^verbatim>\<open>branches\<close>
  of a measurement value, whose class is not part of the sources at hand (\<open>pp_branches\<close> lists
  \<^verbatim>\<open>branches.values()\<close>), Python's \<^verbatim>\<open>str\<close> on such a branch value, and the function
  \<^verbatim>\<open>broadcast_fn\<close> that \<^verbatim>\<open>broadcast_expand\<close> returns. The dictionary given to \<^verbatim>\<open>concretize\<close> maps a
  mid-circuit measurement to the column of its samples, an array with two axes.
\<close>

record pp_env =
  pp_concretize :: "mvalue \<Rightarrow> (operation \<times> fl list list) list \<Rightarrow> error + fl list list"
  pp_branches :: "mvalue \<Rightarrow> real list"
  pp_str :: "real \<Rightarrow> string"
  pp_broadcast_fn :: "pyobj list \<Rightarrow> error + pyobj"

text \<open>
  Arithmetic on floating-point numbers: the product, the difference and the sum of a list.
  \<open>times_bool x b\<close> is the product \<^verbatim>\<open>x * b\<close> of a number with a NumPy boolean.
\<close>

fun fmul :: "fl \<Rightarrow> fl \<Rightarrow> fl" where
  "fmul (Fin a) (Fin b) = Fin (a * b)"
| "fmul NaN _ = NaN"
| "fmul _ NaN = NaN"
| "fmul PInf (Fin b) = (if b = 0 then NaN else if 0 < b then PInf else NInf)"
| "fmul NInf (Fin b) = (if b = 0 then NaN else if 0 < b then NInf else PInf)"
| "fmul (Fin a) PInf = (if a = 0 then NaN else if 0 < a then PInf else NInf)"
| "fmul (Fin a) NInf = (if a = 0 then NaN else if 0 < a then NInf else PInf)"
| "fmul PInf PInf = PInf"
| "fmul PInf NInf = NInf"
| "fmul NInf PInf = NInf"
| "fmul NInf NInf = PInf"

fun fneg :: "fl \<Rightarrow> fl" where
  "fneg (Fin a) = Fin (- a)"
| "fneg PInf = NInf"
| "fneg NInf = PInf"
| "fneg NaN = NaN"

definition fsub :: "fl \<Rightarrow> fl \<Rightarrow> fl" where
  "fsub a b = fadd a (fneg b)"

definition fsum :: "fl list \<Rightarrow> fl" where
  "fsum xs = foldr fadd xs (Fin 0)"

definition times_bool :: "fl \<Rightarrow> bool \<Rightarrow> fl" where
  "times_bool x b = fmul x (Fin (if b then 1 else 0))"

text \<open>
  Two helpers: \<open>collect\<close> evaluates a function that can raise on every entry of a list, in
  order, and \<open>broadcast2\<close> is NumPy's broadcasting of a binary operation along one axis.
\<close>

fun collect :: "('a \<Rightarrow> error + 'b) \<Rightarrow> 'a list \<Rightarrow> error + 'b list" where
  "collect f [] = Inr []"
| "collect f (x # xs) =
     (case f x of
        Inl e \<Rightarrow> Inl e
      | Inr y \<Rightarrow> (case collect f xs of Inl e \<Rightarrow> Inl e | Inr ys \<Rightarrow> Inr (y # ys)))"

definition broadcast2 :: "('a \<Rightarrow> 'b \<Rightarrow> 'c) \<Rightarrow> 'a list \<Rightarrow> 'b list \<Rightarrow> error + 'c list" where
  "broadcast2 f xs ys =
     (if length xs = length ys then Inr (map2 f xs ys)
      else if length ys = 1 then Inr (map (\<lambda>x. f x (hd ys)) xs)
      else if length xs = 1 then Inr (map (f (hd xs)) ys)
      else Inl ValueError)"

text \<open>
  Indexing and iterating over an object. A number has no entries; what the entries of a
  dictionary are is not modelled.
\<close>

fun py_getitem :: "pyobj \<Rightarrow> nat \<Rightarrow> error + pyobj" where
  "py_getitem (Tuple xs) i = (if i < length xs then Inr (xs ! i) else Inl IndexError)"
| "py_getitem (Data (Num x)) i = Inl IndexError"
| "py_getitem (Data (Vec xs)) i =
     (if i < length xs then Inr (Data (Num (xs ! i))) else Inl IndexError)"
| "py_getitem (Data (Mat rows)) i =
     (if i < length rows then Inr (Data (Vec (rows ! i))) else Inl IndexError)"
| "py_getitem (Data (Dict d)) i = Inl Unmodelled"
| "py_getitem (Data (Dicts ds)) i =
     (if i < length ds then Inr (Data (Dict (ds ! i))) else Inl IndexError)"

fun py_list :: "pyobj \<Rightarrow> error + pyobj list" where
  "py_list (Tuple xs) = Inr xs"
| "py_list (Data (Num x)) = Inl TypeError"
| "py_list (Data (Vec xs)) = Inr (map (\<lambda>x. Data (Num x)) xs)"
| "py_list (Data (Mat rows)) = Inr (map (\<lambda>r. Data (Vec r)) rows)"
| "py_list (Data (Dict d)) = Inl Unmodelled"
| "py_list (Data (Dicts ds)) = Inr (map (\<lambda>d. Data (Dict d)) ds)"

text \<open>
  \<^verbatim>\<open>reshape_data\<close>, which is \<^verbatim>\<open>squeeze(vstack(array))\<close>. \<^verbatim>\<open>vstack\<close> makes every entry of the tuple an
  array with two axes and stacks their rows, which must have one length; \<^verbatim>\<open>squeeze\<close> removes
  the axes of length one. Dictionaries are stacked into an array of objects. A tuple that
  mixes dictionaries with numbers, or holds tuples, is not modelled.
\<close>

fun atleast_2d :: "data \<Rightarrow> fl list list option" where
  "atleast_2d (Num x) = Some [[x]]"
| "atleast_2d (Vec xs) = Some [xs]"
| "atleast_2d (Mat rows) = Some rows"
| "atleast_2d (Dict d) = None"
| "atleast_2d (Dicts ds) = None"

definition squeeze_rows :: "fl list list \<Rightarrow> data" where
  "squeeze_rows rows =
     (case rows of
        [] \<Rightarrow> Mat []
      | [r] \<Rightarrow> (case r of [x] \<Rightarrow> Num x | _ \<Rightarrow> Vec r)
      | _ \<Rightarrow> if list_all (\<lambda>r. length r = 1) rows then Vec (map hd rows) else Mat rows)"

fun the_dict :: "pyobj \<Rightarrow> counts option" where
  "the_dict (Data (Dict d)) = Some d"
| "the_dict _ = None"

fun the_rows :: "pyobj \<Rightarrow> fl list list option" where
  "the_rows (Data d) = atleast_2d d"
| "the_rows (Tuple _) = None"

definition reshape_data :: "pyobj list \<Rightarrow> error + data" where
  "reshape_data array =
     (if array = [] then Inl ValueError
      else (case those (map the_dict array) of
              Some ds \<Rightarrow> Inr (case ds of [d] \<Rightarrow> Dict d | _ \<Rightarrow> Dicts ds)
            | None \<Rightarrow>
                (case those (map the_rows array) of
                   None \<Rightarrow> Inl Unmodelled
                 | Some rs \<Rightarrow>
                     if list_all (\<lambda>r. length r = length (hd (concat rs))) (concat rs)
                     then Inr (squeeze_rows (concat rs))
                     else Inl ValueError)))"

text \<open>\<^verbatim>\<open>np.squeeze\<close> of a datum.\<close>

fun squeeze :: "data \<Rightarrow> data" where
  "squeeze (Num x) = Num x"
| "squeeze (Vec xs) = (case xs of [x] \<Rightarrow> Num x | _ \<Rightarrow> Vec xs)"
| "squeeze (Mat rows) = squeeze_rows rows"
| "squeeze (Dict d) = Dict d"
| "squeeze (Dicts ds) = (case ds of [d] \<Rightarrow> Dict d | _ \<Rightarrow> Dicts ds)"

text \<open>
  The counts case of \<^verbatim>\<open>gather_non_mcm\<close>. With \<^verbatim>\<open>all_outcomes\<close> the counter starts with a zero
  for every outcome, read off the branches of the measurement value; a measurement that
  has no measurement value has no branches. The loop adds the dictionary of every shot,
  weighted by the validity of the shot; iterating over an array without axes raises, and
  an entry that is no dictionary has no \<^verbatim>\<open>items\<close>. \<open>sorted_items\<close> is
  \<^verbatim>\<open>dict(sorted(tmp.items()))\<close>, which cannot compare a string with a number.
\<close>

definition initial_counter :: "pp_env \<Rightarrow> measurement \<Rightarrow> error + counts" where
  "initial_counter env measurement =
     (if \<not> mp_all_outcomes measurement then Inr []
      else (case mp_mv measurement of
              None \<Rightarrow> Inl AttributeError
            | Some (MVSequence v vs) \<Rightarrow>
                Inr (fold (\<lambda>t. dict_set (KStr (concat (map (pp_str env) t))) 0)
                       (product_lists (map (pp_branches env) (v # vs))) [])
            | Some v \<Rightarrow> Inr (fold (\<lambda>x. dict_set (KNum x) 0) (pp_branches env v) [])))"

fun update_counts :: "counts list \<Rightarrow> nat \<Rightarrow> bool list \<Rightarrow> counts \<Rightarrow> error + counts" where
  "update_counts [] i is_valid tmp = Inr tmp"
| "update_counts (d # ds) i is_valid tmp =
     (if d \<noteq> [] \<and> length is_valid \<le> i then Inl IndexError
      else update_counts ds (Suc i) is_valid
             (fold (\<lambda>(k, v). counter_update k (if is_valid ! i then v else 0)) d tmp))"

fun is_KStr :: "ckey \<Rightarrow> bool" where
  "is_KStr (KStr _) = True"
| "is_KStr (KNum _) = False"

fun key_str :: "ckey \<Rightarrow> string" where
  "key_str (KStr s) = s"
| "key_str (KNum _) = []"

fun key_num :: "ckey \<Rightarrow> real" where
  "key_num (KNum x) = x"
| "key_num (KStr _) = 0"

definition sorted_items :: "counts \<Rightarrow> error + counts" where
  "sorted_items tmp =
     (if list_all (\<lambda>(k, v). is_KStr k) tmp then Inr (sort_key (\<lambda>(k, v). key_str k) tmp)
      else if list_all (\<lambda>(k, v). \<not> is_KStr k) tmp then Inr (sort_key (\<lambda>(k, v). key_num k) tmp)
      else Inl TypeError)"

definition gather_counts :: "pp_env \<Rightarrow> measurement \<Rightarrow> data \<Rightarrow> bool list \<Rightarrow> error + data" where
  "gather_counts env measurement samples is_valid =
     (case initial_counter env measurement of
        Inl e \<Rightarrow> Inl e
      | Inr tmp \<Rightarrow>
          (case (case samples of
                   Dicts ds \<Rightarrow> update_counts ds 0 is_valid tmp
                 | Dict d \<Rightarrow> Inl TypeError
                 | Num x \<Rightarrow> Inl TypeError
                 | Vec xs \<Rightarrow> if xs = [] then Inr tmp else Inl AttributeError
                 | Mat rows \<Rightarrow> if rows = [] then Inr tmp else Inl AttributeError) of
             Inl e \<Rightarrow> Inl e
           | Inr tmp' \<Rightarrow>
               map_sum id Dict
                 (sorted_items (if mp_all_outcomes measurement then tmp'
                                else filter (\<lambda>(k, v). 0 < v) tmp'))))"

text \<open>
  The sample case of \<^verbatim>\<open>gather_non_mcm\<close>: \<^verbatim>\<open>where(is_valid, samples, fill_in_value)\<close> in the mode
  \<^verbatim>\<open>pad-invalid-samples\<close>, with \<^verbatim>\<open>is_valid\<close> made a column for samples with two axes, and
  \<^verbatim>\<open>samples[is_valid]\<close> otherwise, a single number being made an array with two axes first.
  Arrays of objects are not modelled here.
\<close>

definition fill_in_value :: fl where
  "fill_in_value = Fin (- 2147483648)"

definition pad :: "fl \<Rightarrow> bool \<Rightarrow> fl" where
  "pad x b = (if b then x else fill_in_value)"

definition gather_samples :: "data \<Rightarrow> bool list \<Rightarrow> string option \<Rightarrow> error + data" where
  "gather_samples samples is_valid postselect_mode =
     (if postselect_mode = Some ''pad-invalid-samples''
      then (case samples of
              Num x \<Rightarrow> Inr (Vec (map (pad x) is_valid))
            | Vec xs \<Rightarrow> map_sum id Vec (broadcast2 pad xs is_valid)
            | Mat rows \<Rightarrow> map_sum id Mat (broadcast2 (\<lambda>r b. map (\<lambda>x. pad x b) r) rows is_valid)
            | _ \<Rightarrow> Inl Unmodelled)
      else (case samples of
              Num x \<Rightarrow> map_sum id Mat (boolean_index [[x]] is_valid)
            | Vec xs \<Rightarrow> map_sum id Vec (boolean_index xs is_valid)
            | Mat rows \<Rightarrow> map_sum id Mat (boolean_index rows is_valid)
            | _ \<Rightarrow> Inl Unmodelled))"

text \<open>
  The other cases of \<^verbatim>\<open>gather_non_mcm\<close>. \<open>times_valid\<close> lists the entries of
  \<^verbatim>\<open>samples * is_valid\<close>, which multiplies along the last axis, and \<open>count_valid\<close> is
  \<^verbatim>\<open>sum(is_valid)\<close>. For a probability \<^verbatim>\<open>is_valid\<close> is a column, which multiplies the rows, and
  the sum runs over the rows; the sum of an array without rows is not modelled.
\<close>

definition times_valid :: "data \<Rightarrow> bool list \<Rightarrow> error + fl list" where
  "times_valid samples is_valid =
     (case samples of
        Num x \<Rightarrow> Inr (map (times_bool x) is_valid)
      | Vec xs \<Rightarrow> broadcast2 times_bool xs is_valid
      | Mat rows \<Rightarrow> map_sum id concat (collect (\<lambda>r. broadcast2 times_bool r is_valid) rows)
      | _ \<Rightarrow> Inl TypeError)"

definition count_valid :: "bool list \<Rightarrow> nat" where
  "count_valid is_valid = length (filter id is_valid)"

definition masked_mean :: "data \<Rightarrow> bool list \<Rightarrow> error + fl" where
  "masked_mean samples is_valid =
     map_sum id (\<lambda>ys. fdiv (fsum ys) (count_valid is_valid)) (times_valid samples is_valid)"

fun map_data :: "(fl \<Rightarrow> fl) \<Rightarrow> data \<Rightarrow> data" where
  "map_data f (Num x) = Num (f x)"
| "map_data f (Vec xs) = Vec (map f xs)"
| "map_data f (Mat rows) = Mat (map (map f) rows)"
| "map_data f (Dict d) = Dict d"
| "map_data f (Dicts ds) = Dicts ds"

definition gather_probs :: "data \<Rightarrow> bool list \<Rightarrow> error + data" where
  "gather_probs samples is_valid =
     (case atleast_2d samples of
        None \<Rightarrow> Inl TypeError
      | Some rows \<Rightarrow>
          (case broadcast2 (\<lambda>r b. map (\<lambda>x. times_bool x b) r) rows is_valid of
             Inl e \<Rightarrow> Inl e
           | Inr products \<Rightarrow>
               if products = [] then Inl Unmodelled
               else Inr (Vec (map (\<lambda>column. fdiv (fsum column) (count_valid is_valid))
                                (transpose products)))))"

definition gather_var :: "data \<Rightarrow> bool list \<Rightarrow> error + data" where
  "gather_var samples is_valid =
     (case masked_mean samples is_valid of
        Inl e \<Rightarrow> Inl e
      | Inr expval \<Rightarrow>
          map_sum id Num
            (masked_mean (map_data (\<lambda>x. fmul (fsub x expval) (fsub x expval)) samples)
               is_valid))"

text \<open>\<^verbatim>\<open>gather_non_mcm\<close>; every measurement that is none of the first four is treated as a variance.\<close>

definition gather_non_mcm ::
  "pp_env \<Rightarrow> measurement \<Rightarrow> data \<Rightarrow> bool list \<Rightarrow> string option \<Rightarrow> error + data" where
  "gather_non_mcm env measurement samples is_valid postselect_mode =
     (if mp_kind measurement = CountsMP then gather_counts env measurement samples is_valid
      else if mp_kind measurement = SampleMP
        then gather_samples samples is_valid postselect_mode
      else if mp_kind measurement = ExpectationMP
        then map_sum id Num (masked_mean samples is_valid)
      else if mp_kind measurement = ProbabilityMP then gather_probs samples is_valid
      else gather_var samples is_valid)"

text \<open>
  \<^verbatim>\<open>gather_mcm\<close>. For a list of measurement values under a counts, probability or sample
  measurement the samples of the values are concatenated side by side; a probability
  counts, for every combination of branch values, the valid rows equal to it, and a counts
  measurement labels every row with the digits of its entries. A single measurement value
  is handled alike on the flattened samples; a list has no method \<^verbatim>\<open>concretize\<close>, and neither
  has \<^verbatim>\<open>None\<close>. \<open>str_int\<close> is \<^verbatim>\<open>str\<close> on an integer, and \<^verbatim>\<open>int\<close> raises for a value that is not finite.
\<close>

fun concatenate_axis1 :: "fl list list list \<Rightarrow> error + fl list list" where
  "concatenate_axis1 [] = Inl ValueError"
| "concatenate_axis1 [a] = Inr a"
| "concatenate_axis1 (a # as) =
     (case concatenate_axis1 as of
        Inl e \<Rightarrow> Inl e
      | Inr b \<Rightarrow> if length a = length b then Inr (map2 (@) a b) else Inl ValueError)"

definition rows_equal :: "fl list list \<Rightarrow> real list \<Rightarrow> error + bool list" where
  "rows_equal rows v =
     collect (\<lambda>r. map_sum id (list_all id) (broadcast2 (\<lambda>x y. x = Fin y) r v)) rows"

definition normalized_counts :: "nat list \<Rightarrow> data" where
  "normalized_counts cs = Vec (map (\<lambda>c. fdiv (Fin (real c)) (sum_list cs)) cs)"

fun str_nat :: "nat \<Rightarrow> string" where
  "str_nat n =
     (if n < 10 then [char_of (48 + n)] else str_nat (n div 10) @ [char_of (48 + n mod 10)])"

definition str_int :: "int \<Rightarrow> string" where
  "str_int i = (if i < 0 then CHR ''-'' # str_nat (nat (- i)) else str_nat (nat i))"

fun int_of_fl :: "fl \<Rightarrow> error + int" where
  "int_of_fl (Fin r) = Inr (py_int r)"
| "int_of_fl NaN = Inl ValueError"
| "int_of_fl _ = Inl OverflowError"

definition row_label :: "fl list \<Rightarrow> error + counts" where
  "row_label s =
     map_sum id (\<lambda>is. [(KStr (concat (map str_int is)), 1)]) (collect int_of_fl s)"

fun float_key :: "fl \<Rightarrow> error + counts" where
  "float_key (Fin r) = Inr [(KNum r, 1)]"
| "float_key _ = Inl Unmodelled"

definition gather_mcm ::
  "pp_env \<Rightarrow> measurement \<Rightarrow> (operation \<times> fl list list) list \<Rightarrow> bool list \<Rightarrow> string option
     \<Rightarrow> error + data" where
  "gather_mcm env measurement samples is_valid postselect_mode =
     (case mp_mv measurement of
        None \<Rightarrow> Inl AttributeError
      | Some (MVSequence v vs) \<Rightarrow>
          if mp_kind measurement = CountsMP \<or> mp_kind measurement = ProbabilityMP
             \<or> mp_kind measurement = SampleMP
          then (case collect (\<lambda>m. pp_concretize env m samples) (v # vs) of
                  Inl e \<Rightarrow> Inl e
                | Inr arrays \<Rightarrow>
                    (case concatenate_axis1 arrays of
                       Inl e \<Rightarrow> Inl e
                     | Inr mcm_samples \<Rightarrow>
                         if mp_kind measurement = ProbabilityMP
                         then (case collect
                                      (\<lambda>value. case rows_equal mcm_samples value of
                                                 Inl e \<Rightarrow> Inl e
                                               | Inr eq \<Rightarrow>
                                                   map_sum id count_valid (logical_and eq is_valid))
                                      (product_lists (map (pp_branches env) (v # vs))) of
                                 Inl e \<Rightarrow> Inl e
                               | Inr cs \<Rightarrow> Inr (normalized_counts cs))
                         else if mp_kind measurement = CountsMP
                         then (case collect row_label mcm_samples of
                                 Inl e \<Rightarrow> Inl e
                               | Inr ds \<Rightarrow>
                                   gather_non_mcm env measurement (Dicts ds) is_valid
                                     postselect_mode)
                         else gather_non_mcm env measurement (Mat mcm_samples) is_valid
                                postselect_mode))
          else Inl AttributeError
      | Some mv \<Rightarrow>
          (case pp_concretize env mv samples of
             Inl e \<Rightarrow> Inl e
           | Inr array \<Rightarrow>
               if mp_kind measurement = ProbabilityMP
               then (case collect
                            (\<lambda>value. map_sum id count_valid
                                       (logical_and (map (\<lambda>x. x = Fin value) (concat array))
                                          is_valid))
                            (pp_branches env mv) of
                       Inl e \<Rightarrow> Inl e
                     | Inr cs \<Rightarrow> Inr (normalized_counts cs))
               else if mp_kind measurement = CountsMP
               then (case collect float_key (concat array) of
                       Inl e \<Rightarrow> Inl e
                     | Inr ds \<Rightarrow>
                         gather_non_mcm env measurement (Dicts ds) is_valid postselect_mode)
               else gather_non_mcm env measurement (Vec (concat array)) is_valid
                      postselect_mode))"

text \<open>
  The head of \<^verbatim>\<open>parse_native_mid_circuit_measurements\<close>. The last \<^verbatim>\<open>n_mcms\<close> results are made
  columns and set side by side; a shot is valid when every column agrees with the
  postselection of its mid-circuit measurement, where there is one. A dictionary cannot be
  multiplied. \<open>py_last n xs\<close> is the slice \<^verbatim>\<open>xs[-n:]\<close>, which is all of \<open>xs\<close> for \<open>n = 0\<close>.
\<close>

definition py_last :: "nat \<Rightarrow> 'a list \<Rightarrow> 'a list" where
  "py_last n xs = (if n = 0 then xs else drop (length xs - n) xs)"

fun cells :: "data \<Rightarrow> fl option list" where
  "cells (Num x) = [Some x]"
| "cells (Vec xs) = map Some xs"
| "cells (Mat rows) = map Some (concat rows)"
| "cells (Dict d) = [None]"
| "cells (Dicts ds) = map (\<lambda>d. None) ds"

definition hstack_columns :: "data list \<Rightarrow> error + fl option list list" where
  "hstack_columns ress =
     (if ress = [] then Inl ValueError
      else if list_ex (\<lambda>r. length (cells r) \<noteq> length (cells (hd ress))) ress
        then Inl ValueError
      else Inr (map (\<lambda>i. map (\<lambda>r. cells r ! i) ress) [0..<length (cells (hd ress))]))"

definition agrees :: "fl \<Rightarrow> int option \<Rightarrow> bool" where
  "agrees x p = (times_bool x (p \<noteq> None) = Fin (of_int (case p of None \<Rightarrow> 0 | Some v \<Rightarrow> v)))"

definition valid_shots ::
  "nat \<Rightarrow> fl option list list \<Rightarrow> operation list \<Rightarrow> error + (bool list \<times> fl list list)" where
  "valid_shots n_columns rows all_mcms =
     (if n_columns \<noteq> length all_mcms \<and> n_columns \<noteq> 1 \<and> length all_mcms \<noteq> 1
      then Inl ValueError
      else if all_mcms = [] then Inr (map (\<lambda>r. True) rows, [])
      else (case those (map those rows) of
              None \<Rightarrow> Inl TypeError
            | Some mcm_samples \<Rightarrow>
                (case collect (\<lambda>r. map_sum id (list_all id)
                                     (broadcast2 agrees r (map postselect all_mcms)))
                        mcm_samples of
                   Inl e \<Rightarrow> Inl e
                 | Inr is_valid \<Rightarrow> Inr (is_valid, mcm_samples))))"

definition mcm_dict ::
  "operation list \<Rightarrow> nat \<Rightarrow> fl list list \<Rightarrow> (operation \<times> fl list list) list" where
  "mcm_dict mid_meas n_mcms mcm_samples =
     fold (\<lambda>(k, v). dict_set k v)
       (zip mid_meas (map (\<lambda>i. map (\<lambda>r. take 1 (drop i r)) mcm_samples) [0..<n_mcms])) []"

text \<open>
  The loop of \<^verbatim>\<open>parse_native_mid_circuit_measurements\<close> over the measurements of the circuit,
  \<^verbatim>\<open>m_count\<close> counting those without a measurement value. No compilation is active
  (\<^verbatim>\<open>qml.compiler.active()\<close> is false), so the branches for the compiler are never taken.
\<close>

definition no_shots :: "measurement \<Rightarrow> data" where
  "no_shots m =
     (if mp_kind m = ProbabilityMP
      then (case mp_eigvals m of None \<Rightarrow> Num NaN | Some n \<Rightarrow> Vec (replicate n NaN))
      else Num NaN)"

fun parse_loop ::
  "pp_env \<Rightarrow> data list \<Rightarrow> (operation \<times> fl list list) list \<Rightarrow> bool list \<Rightarrow> string option
     \<Rightarrow> measurement list \<Rightarrow> nat \<Rightarrow> error + data list" where
  "parse_loop env results mcm_samples is_valid postselect_mode [] m_count = Inr []"
| "parse_loop env results mcm_samples is_valid postselect_mode (m # ms) m_count =
     (if \<not> supported_kind (mp_kind m) then Inl TypeError
      else
        (case (if mp_mv m \<noteq> None \<and> \<not> list_ex id is_valid then Inr (no_shots m, m_count)
               else if mp_mv m \<noteq> None
                 then map_sum id (\<lambda>meas. (meas, m_count))
                        (gather_mcm env m mcm_samples is_valid postselect_mode)
               else if \<not> list_ex id is_valid then Inr (no_shots m, m_count + 1)
               else if length results \<le> m_count then Inl IndexError
               else map_sum id (\<lambda>meas. (meas, m_count + 1))
                      (gather_non_mcm env m (results ! m_count) is_valid postselect_mode)) of
           Inl e \<Rightarrow> Inl e
         | Inr (meas, m_count') \<Rightarrow>
             (case parse_loop env results mcm_samples is_valid postselect_mode ms m_count' of
                Inl e \<Rightarrow> Inl e
              | Inr normalized_meas \<Rightarrow>
                  Inr ((if mp_kind m = SampleMP then squeeze meas else meas)
                       # normalized_meas))))"

definition parse_native_mid_circuit_measurements ::
  "pp_env \<Rightarrow> tape \<Rightarrow> tape list \<Rightarrow> data list \<Rightarrow> string option \<Rightarrow> error + pyobj" where
  "parse_native_mid_circuit_measurements env circuit aux_tapes results postselect_mode =
     (case aux_tapes of
        [] \<Rightarrow> Inl IndexError
      | aux # _ \<Rightarrow>
          (let all_mcms = filter is_mcm (operations aux);
               n_mcms = length all_mcms;
               columns = py_last n_mcms results
           in case hstack_columns columns of
                Inl e \<Rightarrow> Inl e
              | Inr rows \<Rightarrow>
                  (case valid_shots (length columns) rows all_mcms of
                     Inl e \<Rightarrow> Inl e
                   | Inr (is_valid, mcm_samples) \<Rightarrow>
                       (case parse_loop env results
                               (mcm_dict (filter is_mcm (operations circuit)) n_mcms mcm_samples)
                               is_valid postselect_mode (measurements circuit) 0 of
                          Inl e \<Rightarrow> Inl e
                        | Inr normalized_meas \<Rightarrow>
                            (case normalized_meas of
                               [] \<Rightarrow> Inl IndexError
                             | [meas] \<Rightarrow> Inr (Data meas)
                             | _ \<Rightarrow> Inr (Tuple (map Data normalized_meas)))))))"

text \<open>
  \<^verbatim>\<open>processing_fn\<close>, the function that \<^verbatim>\<open>dynamic_one_shot\<close> returns, in three layers.
  \<open>processing_shots\<close> is the part after the choice of the results: the per-shot results are
  regrouped by measurement with \<^verbatim>\<open>reshape_data\<close> and parsed. \<open>processing_bins\<close> is the loop over
  a shot vector, which cuts the results into one slice per entry. \<open>processing_fn\<close> takes
  the arguments \<^verbatim>\<open>has_partitioned_shots\<close> and \<^verbatim>\<open>batched_results\<close> as options, \<open>None\<close> being their
  default.
\<close>

definition processing_shots ::
  "pp_env \<Rightarrow> tape \<Rightarrow> tape list \<Rightarrow> string option \<Rightarrow> pyobj \<Rightarrow> error + pyobj" where
  "processing_shots env tp aux_tapes postselect_mode results =
     (case py_getitem results 0 of
        Inl e \<Rightarrow> Inl e
      | Inr first \<Rightarrow>
          (case py_list results of
             Inl e \<Rightarrow> Inl e
           | Inr rs \<Rightarrow>
               (case (case first of
                        Data _ \<Rightarrow> map_sum id (\<lambda>d. [d]) (reshape_data rs)
                      | Tuple ys \<Rightarrow>
                          collect (\<lambda>i. case collect (\<lambda>res. py_getitem res i) rs of
                                         Inl e \<Rightarrow> Inl e
                                       | Inr column \<Rightarrow> reshape_data column)
                            [0..<length ys]) of
                  Inl e \<Rightarrow> Inl e
                | Inr stacked \<Rightarrow>
                    parse_native_mid_circuit_measurements env tp aux_tapes stacked
                      postselect_mode)))"

fun processing_bins ::
  "pp_env \<Rightarrow> tape \<Rightarrow> tape list \<Rightarrow> string option \<Rightarrow> nat list \<Rightarrow> pyobj list
     \<Rightarrow> error + pyobj list" where
  "processing_bins env tp aux_tapes postselect_mode [] results = Inr []"
| "processing_bins env tp aux_tapes postselect_mode (s # ss) results =
     (case processing_shots env tp aux_tapes postselect_mode (Tuple (take s results)) of
        Inl e \<Rightarrow> Inl e
      | Inr r \<Rightarrow>
          (case processing_bins env tp aux_tapes postselect_mode ss (drop s results) of
             Inl e \<Rightarrow> Inl e
           | Inr final_results \<Rightarrow> Inr (r # final_results)))"

definition processing_unbatched ::
  "pp_env \<Rightarrow> tape \<Rightarrow> tape list \<Rightarrow> string option \<Rightarrow> bool option \<Rightarrow> pyobj
     \<Rightarrow> error + pyobj" where
  "processing_unbatched env tp aux_tapes postselect_mode has_partitioned results =
     (if has_partitioned = None \<and> has_partitioned_shots (shots tp)
      then (case py_getitem results 0 of
              Inl e \<Rightarrow> Inl e
            | Inr first \<Rightarrow>
                (case py_list first of
                   Inl e \<Rightarrow> Inl e
                 | Inr rs \<Rightarrow>
                     map_sum id Tuple
                       (processing_bins env tp aux_tapes postselect_mode
                          (case shots tp of None \<Rightarrow> [] | Some xs \<Rightarrow> xs) rs)))
      else if \<not> has_partitioned_shots (shots tp)
      then (case py_getitem results 0 of
              Inl e \<Rightarrow> Inl e
            | Inr first \<Rightarrow> processing_shots env tp aux_tapes postselect_mode first)
      else processing_shots env tp aux_tapes postselect_mode results)"

definition processing_fn ::
  "pp_env \<Rightarrow> tape \<Rightarrow> tape list \<Rightarrow> string option \<Rightarrow> bool option \<Rightarrow> bool option \<Rightarrow> pyobj
     \<Rightarrow> error + pyobj" where
  "processing_fn env tp aux_tapes postselect_mode has_partitioned batched_results results =
     (if batched_results = None \<and> batch_size tp \<noteq> None
      then (case py_list results of
              Inl e \<Rightarrow> Inl e
            | Inr rs \<Rightarrow>
                (case collect (\<lambda>result. processing_unbatched env tp aux_tapes postselect_mode
                                          None (Tuple [result])) rs of
                   Inl e \<Rightarrow> Inl e
                 | Inr final_results \<Rightarrow> pp_broadcast_fn env final_results))
      else processing_unbatched env tp aux_tapes postselect_mode has_partitioned results)"

text \<open>
  Calling a postprocessing function on the results of the batch: \<open>NullPostprocessing\<close> is
  \<^verbatim>\<open>null_postprocessing\<close> and \<open>ProcessingFn\<close> is \<^verbatim>\<open>processing_fn\<close> with the values it closes over.
\<close>

fun apply_postprocessing :: "pp_env \<Rightarrow> postprocessing \<Rightarrow> pyobj list \<Rightarrow> error + pyobj" where
  "apply_postprocessing env NullPostprocessing results = null_postprocessing results"
| "apply_postprocessing env (ProcessingFn tp aux_tapes postselect_mode) results =
     processing_fn env tp aux_tapes postselect_mode None None (Tuple results)"

section \<open>Example circuits\<close>

definition expval_Z0 :: measurement where
  "expval_Z0 = \<lparr>mp_kind = ExpectationMP, mp_obs = Some ''Z'', mp_wires = [0],
                mp_mv = None, mp_eigvals = Some 2, mp_all_outcomes = False\<rparr>"

definition state_mp :: measurement where
  "state_mp = \<lparr>mp_kind = OtherMP ''StateMP'', mp_obs = None, mp_wires = [],
               mp_mv = None, mp_eigvals = None, mp_all_outcomes = False\<rparr>"

definition tape_no_mcm :: tape where
  "tape_no_mcm = \<lparr>operations = [Gate ''Hadamard'' [0]], measurements = [state_mp],
                  shots = None, batch_size = None, trainable_params = []\<rparr>"

definition tape_mcm :: "measurement \<Rightarrow> shots \<Rightarrow> tape" where
  "tape_mcm m s = \<lparr>operations = [Gate ''Hadamard'' [0], MidMeasureMP 0 0 None False],
                   measurements = [m], shots = s, batch_size = None, trainable_params = []\<rparr>"

text \<open>
  The answers of the simulator on two circuits over two wires. The first gate rotates wire
  0 to amplitudes 3/5 and 4/5; four shots of wire 0 give the samples 0, 1, 0, 1; wire 1 stays
  in state 0, so its samples are 0; the expectation value measured at the end is 1.
\<close>

definition ry_state :: tensor where
  "ry_state = Node (Node (Leaf (3 / 5)) (Leaf 0)) (Node (Leaf (4 / 5)) (Leaf 0))"

definition stub_env :: "unit sim_env" where
  "stub_env =
     \<lparr>env_create_initial_state = (\<lambda>c. Node (Node (Leaf 1) (Leaf 0)) (Node (Leaf 0) (Leaf 0))),
      env_get_final_state =
        (\<lambda>c s a. (if operations c = [Gate ''RY'' [0]] then ry_state else s, False)),
      env_measure_final_state =
        (\<lambda>c s b g. (if operations c = [Gate ''RY'' [0]]
                      then Single (Array [Fin 0, Fin 1, Fin 0, Fin 1])
                      else if mp_kind (hd (measurements c)) = ExpectationMP
                      then Single (Scalar (Fin 1))
                      else Single (Array [Fin 0, Fin 0]), g)),
      env_gather_mcm = (\<lambda>m d. Inl TypeError),
      env_np_empty = (\<lambda>n. replicate n (Fin 0))\<rparr>"

definition nested_tape :: tape where
  "nested_tape =
     \<lparr>operations = [Gate ''RY'' [0], MidMeasureMP 0 0 None False,
                     MidMeasureMP 1 1 (Some 1) False],
      measurements = [counts_wire0], shots = Some [4], batch_size = None,
      trainable_params = []\<rparr>"

definition postselect_tape :: tape where
  "postselect_tape =
     \<lparr>operations = [Gate ''RY'' [0], MidMeasureMP 0 0 (Some 1) False, Gate ''CNOT'' [0, 1]],
      measurements = [expval_Z0], shots = Some [4], batch_size = None,
      trainable_params = []\<rparr>"

definition example_samples :: mcm_samples where
  "example_samples =
     [(MidMeasureMP 0 0 None False, [Fin 0, Fin 1, Fin 0, Fin 1]),
      (MidMeasureMP 1 1 (Some 1) False, [Fin 1, Fin 0, Fin 1, Fin 1])]"

section \<open>Properties of the one-shot transform\<close>

lemma list_ex_is_mcm_iff: "list_ex is_mcm ops \<longleftrightarrow> (\<exists>op \<in> set ops. is_mcm op)"
  by (simp add: list_ex_iff)

text \<open>
  C9. A tape whose operations hold no mid-circuit measurement is returned unchanged as a
  one-element batch, with the postprocessing that extracts the first result; the transform
  does not fail and expands nothing, whatever the measurements and shots of the tape are.
\<close>

theorem C9_no_mcm_identity:
  "\<forall>op \<in> set (operations tp). \<not> is_mcm op \<Longrightarrow>
     dynamic_one_shot bx pm tp = Inr ([tp], NullPostprocessing)
     \<and> null_postprocessing (r # rs) = Inr r"
  by (simp add: dynamic_one_shot_def list_ex_iff null_postprocessing_def)

theorem C9_no_mcm_identity_witness:
  "dynamic_one_shot (\<lambda>t. []) None tape_no_mcm = Inr ([tape_no_mcm], NullPostprocessing)
   \<and> null_postprocessing [7 :: int, 8] = Inr 7"
  using C9_no_mcm_identity [of tape_no_mcm "\<lambda>t. []" None "7 :: int" "[8]"]
  by (simp add: tape_no_mcm_def)

text \<open>
  C8, as stated, fails where both conditions meet: a tape with a mid-circuit measurement,
  a state measurement and analytic shots raises the \<^verbatim>\<open>TypeError\<close> of the measurement check,
  which comes first, not a \<^verbatim>\<open>QuantumFunctionError\<close>.
\<close>

theorem C8_analytic_unsupported_counterexample:
  "list_ex is_mcm (operations (tape_mcm state_mp None))
   \<and> \<not> shots_bool (shots (tape_mcm state_mp None))
   \<and> dynamic_one_shot (\<lambda>t. []) None (tape_mcm state_mp None) = Inl TypeError
   \<and> dynamic_one_shot (\<lambda>t. []) None (tape_mcm state_mp None) \<noteq> Inl QuantumFunctionError"
  by (simp add: dynamic_one_shot_def tape_mcm_def state_mp_def supported_kind_def
      shots_bool_def)

text \<open>
  C8, amended. For a tape with a mid-circuit measurement: a measurement of a kind outside
  Counts, Expectation, Probability, Sample and Variance makes the transform raise a
  \<^verbatim>\<open>TypeError\<close>; analytic shots make it raise a \<^verbatim>\<open>QuantumFunctionError\<close> when every
  measurement is of a supported kind. In both cases the call returns the error and no
  tapes.
\<close>

theorem C8_errors:
  assumes "\<exists>op \<in> set (operations tp). is_mcm op"
  shows "((\<exists>m \<in> set (measurements tp). \<not> supported_kind (mp_kind m)) \<longrightarrow>
            dynamic_one_shot bx pm tp = Inl TypeError)
       \<and> ((\<forall>m \<in> set (measurements tp). supported_kind (mp_kind m)) \<and> shots tp = None \<longrightarrow>
            dynamic_one_shot bx pm tp = Inl QuantumFunctionError)"
  using assms by (auto simp: dynamic_one_shot_def list_ex_iff shots_bool_def)

theorem C8_errors_witness:
  "dynamic_one_shot (\<lambda>t. []) None (tape_mcm state_mp (Some [10])) = Inl TypeError
   \<and> dynamic_one_shot (\<lambda>t. []) None (tape_mcm expval_Z0 None) = Inl QuantumFunctionError"
proof -
  have mcm: "\<exists>op \<in> set (operations (tape_mcm m s)). is_mcm op" for m s
    by (simp add: tape_mcm_def)
  have "\<exists>m \<in> set (measurements (tape_mcm state_mp (Some [10]))). \<not> supported_kind (mp_kind m)"
    by (simp add: tape_mcm_def state_mp_def supported_kind_def)
  moreover have "(\<forall>m \<in> set (measurements (tape_mcm expval_Z0 None)). supported_kind (mp_kind m))
                 \<and> shots (tape_mcm expval_Z0 None) = None"
    by (simp add: tape_mcm_def expval_Z0_def supported_kind_def)
  ultimately show ?thesis
    using C8_errors [OF mcm, of state_mp "Some [10]" "\<lambda>t. []" None]
          C8_errors [OF mcm, of expval_Z0 None "\<lambda>t. []" None]
    by blast
qed




section \<open>Properties of the simulation entry point\<close>

text \<open>
  C5. \<^verbatim>\<open>simulate\<close> returns the result of the tree simulator exactly for the circuits with
  finite shots and a \<^verbatim>\<open>MidMeasureMP\<close> among their operations, and the result of measuring the
  final state for every other circuit.
\<close>

theorem C5_simulate_dispatch:
  "(shots circuit \<noteq> None \<and> (\<exists>op \<in> set (operations circuit). is_MidMeasureMP op) \<longrightarrow>
      fst (simulate stm gfs mfs h circuit cache) = stm circuit)
   \<and> (\<not> (shots circuit \<noteq> None \<and> (\<exists>op \<in> set (operations circuit). is_MidMeasureMP op)) \<longrightarrow>
      fst (simulate stm gfs mfs h circuit cache)
        = mfs circuit (fst (gfs circuit)) (snd (gfs circuit)))"
  by (auto simp: simulate_def has_mid_circuit_measurements_def shots_bool_def list_ex_iff
      split: prod.splits)

theorem C5_simulate_dispatch_witness:
  "fst (simulate (\<lambda>c. ''tree'') (\<lambda>c. (0 :: nat, False)) (\<lambda>c s b. ''plain'') (\<lambda>c. 0)
          (tape_mcm expval_Z0 (Some [10])) None) = ''tree''
   \<and> fst (simulate (\<lambda>c. ''tree'') (\<lambda>c. (0 :: nat, False)) (\<lambda>c s b. ''plain'') (\<lambda>c. 0)
          (tape_mcm expval_Z0 None) None) = ''plain''
   \<and> fst (simulate (\<lambda>c. ''tree'') (\<lambda>c. (0 :: nat, False)) (\<lambda>c s b. ''plain'') (\<lambda>c. 0)
          tape_no_mcm None) = ''plain''"
  using C5_simulate_dispatch [of "tape_mcm expval_Z0 (Some [10])" "\<lambda>c. ''tree''"
          "\<lambda>c. (0 :: nat, False)" "\<lambda>c s b. ''plain''" "\<lambda>c. 0" None]
        C5_simulate_dispatch [of "tape_mcm expval_Z0 None" "\<lambda>c. ''tree''"
          "\<lambda>c. (0 :: nat, False)" "\<lambda>c s b. ''plain''" "\<lambda>c. 0" None]
        C5_simulate_dispatch [of tape_no_mcm "\<lambda>c. ''tree''"
          "\<lambda>c. (0 :: nat, False)" "\<lambda>c s b. ''plain''" "\<lambda>c. 0" None]
  by (simp add: tape_mcm_def tape_no_mcm_def)

section \<open>Properties of resource computation\<close>

















section \<open>Properties of the registry\<close>

lemma wf_empty_registry: "wf_registry empty_registry"
  by (simp add: wf_registry_def empty_registry_def)

lemma wf_getitem:
  "wf_registry s \<Longrightarrow> decompositions_getitem key s = (a, s') \<Longrightarrow>
     wf_registry s' \<and> decompositions s' key = Some a \<and> next_addr s \<le> next_addr s'"
  by (auto simp: wf_registry_def decompositions_getitem_def new_list_def less_Suc_eq
      split: option.splits if_splits)

lemma wf_add_decomps:
  "wf_registry s \<Longrightarrow> add_decomps al t ds s = Inr s' \<Longrightarrow> wf_registry s'"
  by (auto simp: add_decomps_def wf_registry_def split: if_splits prod.splits
      dest!: wf_getitem [unfolded wf_registry_def, rotated])

lemma wf_list_decomps:
  "wf_registry s \<Longrightarrow> list_decomps al t s = (a, s') \<Longrightarrow> wf_registry s'"
  by (auto simp: list_decomps_def new_list_def wf_registry_def less_Suc_eq split: prod.splits
      dest!: wf_getitem [unfolded wf_registry_def, rotated])

lemma list_decomps_fresh:
  assumes "wf_registry s" and "list_decomps al t s = (a, s1)"
  shows "\<forall>k. decompositions s1 k \<noteq> Some a"
    and "returned_list (a, s1) = the (registry_view s1 (al (op_type_name t)))"
proof -
  obtain b s' where g: "decompositions_getitem (al (op_type_name t)) s = (b, s')"
    by (cases "decompositions_getitem (al (op_type_name t)) s")
  from wf_getitem [OF assms(1) g] have w: "wf_registry s'"
    and kb: "decompositions s' (al (op_type_name t)) = Some b" by simp_all
  from assms(2) g have a: "a = next_addr s'"
    and s1: "s1 = s'\<lparr>store := (store s')(next_addr s' \<mapsto> list_at s' b),
                      next_addr := Suc (next_addr s')\<rparr>"
    by (auto simp: list_decomps_def new_list_def)
  from w a s1 show "\<forall>k. decompositions s1 k \<noteq> Some a"
    by (auto simp: wf_registry_def)
  from w kb have "b \<noteq> next_addr s'" by (auto simp: wf_registry_def)
  with a s1 kb show "returned_list (a, s1) = the (registry_view s1 (al (op_type_name t)))"
    by (simp add: returned_list_def registry_view_def list_at_def)
qed

lemma mutate_fresh_view:
  "\<forall>k. decompositions s k \<noteq> Some a \<Longrightarrow> registry_view (mutate_list a ys s) = registry_view s"
  by (auto simp: registry_view_def mutate_list_def list_at_def fun_eq_iff map_option_case
      split: option.splits)

lemma has_decomp_view:
  "has_decomp al t s = (case registry_view s (al (op_type_name t)) of
                          None \<Rightarrow> False | Some xs \<Rightarrow> 0 < length xs)"
  by (simp add: has_decomp_def registry_view_def split: option.splits)

lemma list_decomps_view:
  "wf_registry s \<Longrightarrow>
   returned_list (list_decomps al t s) =
     (case registry_view s (al (op_type_name t)) of None \<Rightarrow> [] | Some xs \<Rightarrow> xs)"
  by (auto simp: returned_list_def list_decomps_def decompositions_getitem_def new_list_def
      registry_view_def list_at_def wf_registry_def split: option.splits)

lemma wf_mutate: "wf_registry s \<Longrightarrow> wf_registry (mutate_list a ys s)"
  by (simp add: wf_registry_def mutate_list_def)

text \<open>
  C10. \<^verbatim>\<open>list_decomps\<close> returns a copy: the list object it returns holds the rules registered
  for the operator and is not a list of the registry. Whatever is done to that object
  afterwards, the registry holds the same rules for every name, and \<^verbatim>\<open>has_decomp\<close> and
  \<^verbatim>\<open>list_decomps\<close> answer for every operator type as they did before the mutation.
\<close>

theorem C10_list_decomps_copy:
  assumes "wf_registry s" and "list_decomps al t s = (a, s1)"
  shows "returned_list (a, s1) = the (registry_view s1 (al (op_type_name t)))
    \<and> registry_view (mutate_list a ys s1) = registry_view s1
    \<and> has_decomp al t' (mutate_list a ys s1) = has_decomp al t' s1
    \<and> returned_list (list_decomps al t' (mutate_list a ys s1))
        = returned_list (list_decomps al t' s1)"
proof -
  note f = list_decomps_fresh [OF assms]
  have w1: "wf_registry s1" by (rule wf_list_decomps [OF assms])
  have v: "registry_view (mutate_list a ys s1) = registry_view s1"
    by (rule mutate_fresh_view [OF f(1)])
  show ?thesis
    using f(2) v w1 wf_mutate [OF w1, of a ys]
    by (simp add: has_decomp_view list_decomps_view)
qed

lemma add_decomps_cnot:
  "add_decomps id (OperatorClass ''CNOT'') [Some ''cnot_to_cz_h'', Some ''cnot_to_ppr'']
     empty_registry = Inr cnot_registry"
  by (simp add: add_decomps_def decompositions_getitem_def new_list_def empty_registry_def
      cnot_registry_def op_type_name_def list_at_def)

theorem C10_list_decomps_copy_witness:
  "has_decomp id (OperatorClass ''CNOT'')
     (mutate_list 1 [] (snd (list_decomps id (OperatorClass ''CNOT'') cnot_registry)))
   \<and> returned_list (list_decomps id (OperatorClass ''CNOT'')
       (mutate_list 1 [] (snd (list_decomps id (OperatorClass ''CNOT'') cnot_registry))))
     = [''cnot_to_cz_h'', ''cnot_to_ppr'']"
proof -
  let ?s1 = "snd (list_decomps id (OperatorClass ''CNOT'') cnot_registry)"
  have w: "wf_registry cnot_registry"
    by (simp add: wf_registry_def cnot_registry_def)
  have l: "list_decomps id (OperatorClass ''CNOT'') cnot_registry = (1, ?s1)"
    by (simp add: list_decomps_def decompositions_getitem_def new_list_def cnot_registry_def
        op_type_name_def)
  have h: "has_decomp id (OperatorClass ''CNOT'') ?s1"
    by (simp add: has_decomp_def list_decomps_def decompositions_getitem_def new_list_def
        cnot_registry_def op_type_name_def list_at_def)
  have r: "returned_list (list_decomps id (OperatorClass ''CNOT'') ?s1)
             = [''cnot_to_cz_h'', ''cnot_to_ppr'']"
    by (simp add: returned_list_def list_decomps_def decompositions_getitem_def new_list_def
        cnot_registry_def op_type_name_def list_at_def)
  from C10_list_decomps_copy [OF w l, of "[]" "OperatorClass ''CNOT''"] h r
  show ?thesis by simp
qed

section \<open>Properties of the combination of measurements\<close>

lemma single_values_map:
  "single_values (map (\<lambda>(b, c, x). (b, c, Single (f x))) xs) = Inr (map (\<lambda>(b, c, x). (c, f x)) xs)"
  by (induction xs) auto

lemma weighted_loop_scalars:
  "weighted_loop (map (\<lambda>(b, c, r). (c, Scalar (Fin r))) xs) (Some (Scalar (Fin s))) t =
     Inr (Some (Scalar (Fin (s + (\<Sum>(b, c, r)\<leftarrow>xs. real c * r)))), t + (\<Sum>(b, c, r)\<leftarrow>xs. c))"
  by (induction xs arbitrary: s t) (auto simp: algebra_simps)

lemma weighted_loop_scalars_start:
  "xs \<noteq> [] \<Longrightarrow>
   weighted_loop (map (\<lambda>(b, c, r). (c, Scalar (Fin r))) xs) None 0 =
     Inr (Some (Scalar (Fin (\<Sum>(b, c, r)\<leftarrow>xs. real c * r))), (\<Sum>(b, c, r)\<leftarrow>xs. c))"
  by (cases xs) (auto simp: weighted_loop_scalars)

lemma map2_fadd_Fin: "map2 fadd (map Fin a) (map Fin b) = map Fin (map2 (+) a b)"
proof (induction a arbitrary: b)
  case Nil
  then show ?case by simp
next
  case (Cons x a)
  then show ?case by (cases b) auto
qed

lemma weighted_loop_arrays:
  assumes "\<forall>(b, c, rs) \<in> set ys. length rs = length a"
  shows "weighted_loop (map (\<lambda>(b, c, rs). (c, Array (map Fin rs))) ys) (Some (Array (map Fin a))) t =
     Inr (Some (Array (map (\<lambda>i. Fin (a ! i + (\<Sum>(b, c, rs)\<leftarrow>ys. real c * rs ! i)))
                        [0..<length a])),
          t + (\<Sum>(b, c, rs)\<leftarrow>ys. c))"
  using assms
proof (induction ys arbitrary: a t)
  case Nil
  have "map Fin a = map (\<lambda>i. Fin (a ! i)) [0..<length a]"
    by (rule nth_equalityI) simp_all
  then show ?case by simp
next
  case (Cons y ys)
  obtain b c rs where y: "y = (b, c, rs)" by (cases y)
  let ?a' = "map2 (+) a (map ((*) (real c)) rs)"
  from Cons.prems y have len: "length rs = length a" by simp
  then have la': "length ?a' = length a" by simp
  from Cons.prems la' have "\<forall>(b, c, rs) \<in> set ys. length rs = length ?a'" by simp
  from Cons.IH [OF this, of "t + c"] la'
  have ih: "weighted_loop (map (\<lambda>(b, c, rs). (c, Array (map Fin rs))) ys)
              (Some (Array (map Fin ?a'))) (t + c) =
     Inr (Some (Array (map (\<lambda>i. Fin (?a' ! i + (\<Sum>(b, c, rs)\<leftarrow>ys. real c * rs ! i)))
                        [0..<length a])),
          t + c + (\<Sum>(b, c, rs)\<leftarrow>ys. c))" by simp
  have sc: "map (fscale c) (map Fin rs) = map Fin (map ((*) (real c)) rs)" by simp
  have "map (\<lambda>i. Fin (?a' ! i + (\<Sum>(b, c, rs)\<leftarrow>ys. real c * rs ! i))) [0..<length a]
      = map (\<lambda>i. Fin (a ! i + (\<Sum>(b, c, rs)\<leftarrow>y # ys. real c * rs ! i))) [0..<length a]"
    using len y by (auto simp: algebra_simps)
  with ih y len show ?case
    by (simp add: map2_fadd_Fin sc del: map_map add: add.assoc)
qed

lemma weighted_loop_arrays_start:
  assumes "ys \<noteq> []" and "\<forall>(b, c, rs) \<in> set ys. length rs = n"
  shows "weighted_loop (map (\<lambda>(b, c, rs). (c, Array (map Fin rs))) ys) None 0 =
     Inr (Some (Array (map (\<lambda>i. Fin (\<Sum>(b, c, rs)\<leftarrow>ys. real c * rs ! i)) [0..<n])),
          (\<Sum>(b, c, rs)\<leftarrow>ys. c))"
proof -
  from assms(1) obtain b c rs ys' where ys: "ys = (b, c, rs) # ys'"
    by (cases ys) auto
  let ?a = "map ((*) (real c)) rs"
  from assms(2) ys have n: "length rs = n" and "\<forall>(b, c, rs) \<in> set ys'. length rs = length ?a"
    by auto
  note wl = weighted_loop_arrays [OF this(2), of c]
  have sc: "map (fscale c) (map Fin rs) = map Fin ?a" by simp
  have pt: "map (\<lambda>i. Fin (?a ! i + (\<Sum>(b, c, rs)\<leftarrow>ys'. real c * rs ! i))) [0..<n]
          = map (\<lambda>i. Fin (\<Sum>(b, c, rs)\<leftarrow>ys. real c * rs ! i)) [0..<n]"
    using n ys by auto
  have "weighted_loop (map (\<lambda>(b, c, rs). (c, Array (map Fin rs))) ys) None 0
      = weighted_loop (map (\<lambda>(b, c, rs). (c, Array (map Fin rs))) ys')
          (Some (Array (map Fin ?a))) c"
    using ys by (simp add: sc del: map_map)
  also have "\<dots> = Inr (Some (Array (map (\<lambda>i. Fin (?a ! i + (\<Sum>(b, c, rs)\<leftarrow>ys'. real c * rs ! i)))
                        [0..<n])), c + (\<Sum>(b, c, rs)\<leftarrow>ys'. c))"
    using wl n by simp
  also have "\<dots> = Inr (Some (Array (map (\<lambda>i. Fin (\<Sum>(b, c, rs)\<leftarrow>ys. real c * rs ! i)) [0..<n])),
          (\<Sum>(b, c, rs)\<leftarrow>ys. c))"
    using pt ys by simp
  finally show ?thesis .
qed


lemma weighted_sum_zero:
  "(\<Sum>(b, c, r)\<leftarrow>xs. c) = (0 :: nat) \<Longrightarrow> (\<Sum>(b, c, r)\<leftarrow>xs. real c * f r) = 0"
  by (induction xs) auto

lemma fdiv_weighted:
  "fdiv (Fin (\<Sum>(b, c, r)\<leftarrow>xs. real c * f r)) (\<Sum>(b, c, r)\<leftarrow>xs. c) =
     (if 0 < (\<Sum>(b, c, r)\<leftarrow>xs. c)
      then Fin ((\<Sum>(b, c, r)\<leftarrow>xs. real c * f r) / real (\<Sum>(b, c, r)\<leftarrow>xs. c))
      else NaN)"
  using weighted_sum_zero [where xs = xs and f = f] by auto

lemma core_weighted:
  "k = ExpectationMP \<or> k = ProbabilityMP \<Longrightarrow> single_values ms = Inr vs \<Longrightarrow>
     weighted_loop vs None 0 = Inr (cv, t) \<Longrightarrow> combine_measurements_core k ms = v_div cv t"
  by (auto simp: combine_measurements_core_def)

text \<open>
  C2. For an expectation or probability measurement and a non-empty dictionary of branches,
  \<^verbatim>\<open>combine_measurements_core\<close> returns the weighted average: the sum over the branches of
  shot count times value, divided by the sum of the shot counts. This is stated for scalar
  values and, entry by entry, for arrays of a common length. When all shot counts are zero
  the quotient of zero by zero is the float NaN.
\<close>

theorem C2_weighted_average:
  assumes "k = ExpectationMP \<or> k = ProbabilityMP"
  shows "(xs \<noteq> [] \<longrightarrow>
           combine_measurements_core k (map (\<lambda>(b, c, r). (b, c, Single (Scalar (Fin r)))) xs) =
             Inr (Scalar (if 0 < (\<Sum>(b, c, r)\<leftarrow>xs. c)
                          then Fin ((\<Sum>(b, c, r)\<leftarrow>xs. real c * r) / real (\<Sum>(b, c, r)\<leftarrow>xs. c))
                          else NaN)))
       \<and> (ys \<noteq> [] \<and> (\<forall>(b, c, rs) \<in> set ys. length rs = n) \<longrightarrow>
           combine_measurements_core k
               (map (\<lambda>(b, c, rs). (b, c, Single (Array (map Fin rs)))) ys) =
             Inr (Array (map (\<lambda>i. if 0 < (\<Sum>(b, c, rs)\<leftarrow>ys. c)
                                   then Fin ((\<Sum>(b, c, rs)\<leftarrow>ys. real c * rs ! i)
                                             / real (\<Sum>(b, c, rs)\<leftarrow>ys. c))
                                   else NaN) [0..<n])))"
proof (intro conjI impI)
  assume xs: "xs \<noteq> []"
  have "combine_measurements_core k (map (\<lambda>(b, c, r). (b, c, Single (Scalar (Fin r)))) xs) =
          Inr (Scalar (fdiv (Fin (\<Sum>(b, c, r)\<leftarrow>xs. real c * r)) (\<Sum>(b, c, r)\<leftarrow>xs. c)))"
    using core_weighted [OF assms single_values_map [of "\<lambda>r. Scalar (Fin r)" xs]
        weighted_loop_scalars_start [OF xs]]
    by (simp del: fdiv.simps)
  then show "combine_measurements_core k (map (\<lambda>(b, c, r). (b, c, Single (Scalar (Fin r)))) xs) =
             Inr (Scalar (if 0 < (\<Sum>(b, c, r)\<leftarrow>xs. c)
                          then Fin ((\<Sum>(b, c, r)\<leftarrow>xs. real c * r) / real (\<Sum>(b, c, r)\<leftarrow>xs. c))
                          else NaN))"
    by (simp only: fdiv_weighted [where xs = xs and f = "\<lambda>r. r"])
next
  assume "ys \<noteq> [] \<and> (\<forall>(b, c, rs) \<in> set ys. length rs = n)"
  then have ys: "ys \<noteq> []" and len: "\<forall>(b, c, rs) \<in> set ys. length rs = n" by simp_all
  have "combine_measurements_core k
               (map (\<lambda>(b, c, rs). (b, c, Single (Array (map Fin rs)))) ys) =
          Inr (Array (map (\<lambda>i. fdiv (Fin (\<Sum>(b, c, rs)\<leftarrow>ys. real c * rs ! i))
                                     (\<Sum>(b, c, rs)\<leftarrow>ys. c)) [0..<n]))"
    using core_weighted [OF assms single_values_map [of "\<lambda>rs. Array (map Fin rs)" ys]
        weighted_loop_arrays_start [OF ys len]]
    by (simp del: fdiv.simps)
  then show "combine_measurements_core k
               (map (\<lambda>(b, c, rs). (b, c, Single (Array (map Fin rs)))) ys) =
             Inr (Array (map (\<lambda>i. if 0 < (\<Sum>(b, c, rs)\<leftarrow>ys. c)
                                   then Fin ((\<Sum>(b, c, rs)\<leftarrow>ys. real c * rs ! i)
                                             / real (\<Sum>(b, c, rs)\<leftarrow>ys. c))
                                   else NaN) [0..<n]))"
    by (simp only: fdiv_weighted [where xs = ys and f = "\<lambda>rs. rs ! i" for i])
qed

theorem C2_weighted_average_witness:
  "combine_measurements_core ExpectationMP
     [(0, 3, Single (Scalar (Fin 1))), (1, 1, Single (Scalar (Fin (- 1))))]
     = Inr (Scalar (Fin (1 / 2)))
   \<and> combine_measurements_core ProbabilityMP
     [(0, 3, Single (Array [Fin 1, Fin 0])), (1, 1, Single (Array [Fin 0, Fin 1]))]
     = Inr (Array [Fin (3 / 4), Fin (1 / 4)])"
  using C2_weighted_average [of ExpectationMP "[(0, 3, 1), (1, 1, - 1)]" "[]" 0]
        C2_weighted_average [of ProbabilityMP "[]" "[(0, 3, [1, 0]), (1, 1, [0, 1])]" 2]
  by (simp add: upt_rec numeral_2_eq_2)

section \<open>Properties of the collapse of a branch\<close>

lemma all_zero_zeros_like: "all_zero (zeros_like t)"
  by (induction t) auto

lemma has_ndim_zeros_like: "has_ndim n t \<Longrightarrow> has_ndim n (zeros_like t)"
  by (induction n t rule: has_ndim.induct) auto

lemma zero_slice_ok:
  "has_ndim n t \<Longrightarrow> axis < n \<Longrightarrow>
     \<exists>t'. zero_slice axis i t = Inr t' \<and> has_ndim n t' \<and> slice_is_zero axis i t'"
proof (induction axis i t arbitrary: n rule: zero_slice.induct)
  case (1 axis i z)
  then show ?case by (cases n) auto
next
  case (2 i l r)
  then show ?case by (cases n) (auto simp: all_zero_zeros_like has_ndim_zeros_like)
next
  case (3 axis i l r)
  then obtain m where n: "n = Suc m" by (cases n) auto
  with 3 show ?case by fastforce
qed

lemma norm_sq_nonneg: "0 \<le> norm_sq t"
  by (induction t) auto

lemma norm_sq_divide: "norm_sq (divide_tensor t c) = norm_sq t / c\<^sup>2"
  by (induction t) (auto simp: norm_divide power_divide add_divide_distrib)

lemma linalg_norm_divide_self:
  assumes "0 < linalg_norm t"
  shows "linalg_norm (divide_tensor t (linalg_norm t)) = 1"
proof -
  have "(linalg_norm t)\<^sup>2 = norm_sq t"
    by (simp add: linalg_norm_def norm_sq_nonneg)
  moreover from assms have "norm_sq t \<noteq> 0"
    by (auto simp: linalg_norm_def)
  ultimately show ?thesis
    by (simp add: linalg_norm_def [of "divide_tensor _ _"] norm_sq_divide)
qed

lemma has_ndim_divide: "has_ndim n t \<Longrightarrow> has_ndim n (divide_tensor t c)"
  by (induction n t rule: has_ndim.induct) auto

lemma all_zero_divide: "all_zero t \<Longrightarrow> all_zero (divide_tensor t c)"
  by (induction t) auto

lemma slice_is_zero_divide: "slice_is_zero axis i t \<Longrightarrow> slice_is_zero axis i (divide_tensor t c)"
  by (induction axis i t rule: slice_is_zero.induct) (auto simp: all_zero_divide)

lemma norm_sq_PauliX: "norm_sq (apply_PauliX w t) = norm_sq t"
  by (induction w t rule: apply_PauliX.induct) auto

lemma slice_is_zero_PauliX: "slice_is_zero w 0 t \<Longrightarrow> slice_is_zero w 1 (apply_PauliX w t)"
  by (induction w t rule: apply_PauliX.induct) auto


lemma branch_loop_accepted:
  "postselect op = None \<or> postselect op = Some branch \<Longrightarrow>
   branch_state op state (mm_wire op) branch = Inl e \<Longrightarrow>
   branch_loop env op nxt state ((branch, count) # rest) st = Inl e"
  by auto

text \<open>
  C7. When a branch is collapsed, the state is projected by zeroing the amplitudes that
  disagree with the outcome on the measured wire. If the norm of the projected state is
  below \<^verbatim>\<open>1.0e-15\<close>, \<^verbatim>\<open>branch_state\<close> raises a \<^verbatim>\<open>ValueError\<close>, and the loop over the branches
  of \<^verbatim>\<open>simulate_tree_mcm\<close> that collapses this branch ends with that error. Otherwise the
  state is divided by its norm, so that its norm is one, and when the measurement resets and
  the outcome is 1 the bit-flip is applied, after which the measured wire is in state 0.
\<close>

theorem C7_branch_collapse:
  assumes "has_ndim n state" and "wire < n"
  shows "\<exists>projected. zero_slice wire (if branch = 0 then 1 else 0) state = Inr projected
    \<and> (linalg_norm projected < 1 / 10 ^ 15 \<longrightarrow>
         branch_state op state wire branch = Inl ValueError
         \<and> ((postselect op = None \<or> postselect op = Some branch) \<and> wire = mm_wire op \<longrightarrow>
              branch_loop env op nxt state ((branch, count) # rest) st = Inl ValueError))
    \<and> (\<not> linalg_norm projected < 1 / 10 ^ 15 \<longrightarrow>
         (\<exists>res. branch_state op state wire branch = Inr res
            \<and> res = (if reset op \<and> branch = 1
                       then apply_PauliX wire (divide_tensor projected (linalg_norm projected))
                       else divide_tensor projected (linalg_norm projected))
            \<and> linalg_norm res = 1
            \<and> (reset op \<and> branch = 1 \<longrightarrow> slice_is_zero wire 1 res)))"
proof -
  from zero_slice_ok [OF assms, of "if branch = 0 then 1 else 0"]
  obtain p where p: "zero_slice wire (if branch = 0 then 1 else 0) state = Inr p"
    and sz: "slice_is_zero wire (if branch = 0 then 1 else 0) p"
    by blast
  have small: "branch_state op state wire branch = Inl ValueError"
    if "linalg_norm p < 1 / 10 ^ 15"
    using that p by (simp add: branch_state_def)
  have loop: "branch_loop env op nxt state ((branch, count) # rest) st = Inl ValueError"
    if "linalg_norm p < 1 / 10 ^ 15"
      and "(postselect op = None \<or> postselect op = Some branch) \<and> wire = mm_wire op"
    using branch_loop_accepted [of op branch state ValueError] small that by blast
  have big: "\<exists>res. branch_state op state wire branch = Inr res
            \<and> res = (if reset op \<and> branch = 1
                       then apply_PauliX wire (divide_tensor p (linalg_norm p))
                       else divide_tensor p (linalg_norm p))
            \<and> linalg_norm res = 1
            \<and> (reset op \<and> branch = 1 \<longrightarrow> slice_is_zero wire 1 res)"
    if nz: "\<not> linalg_norm p < 1 / 10 ^ 15"
  proof -
    from nz have pos: "0 < linalg_norm p"
      by (smt (verit) divide_pos_pos zero_less_power)
    let ?d = "divide_tensor p (linalg_norm p)"
    have one: "linalg_norm ?d = 1" by (rule linalg_norm_divide_self [OF pos])
    then have onex: "linalg_norm (apply_PauliX wire ?d) = 1"
      by (simp add: linalg_norm_def norm_sq_PauliX)
    have "slice_is_zero wire 1 (apply_PauliX wire ?d)" if "branch = 1"
    proof -
      from that sz have "slice_is_zero wire 0 p" by simp
      then show ?thesis by (intro slice_is_zero_PauliX slice_is_zero_divide)
    qed
    with nz p one onex show ?thesis
      by (simp add: branch_state_def)
  qed
  from p small loop big show ?thesis by blast
qed

lemma linalg_norm_one_hot:
  "linalg_norm (Node (Leaf 0) (Leaf 1)) = 1" "linalg_norm (Node (Leaf 0) (Leaf 0)) = 0"
  by (simp_all add: linalg_norm_def)

theorem C7_branch_collapse_witness:
  "branch_state (MidMeasureMP 0 0 None True) (Node (Leaf 0) (Leaf 1)) 0 0 = Inl ValueError
   \<and> branch_state (MidMeasureMP 0 0 None True) (Node (Leaf 0) (Leaf 1)) 0 1
       = Inr (Node (Leaf 1) (Leaf 0))"
proof -
  have h: "has_ndim 1 (Node (Leaf 0) (Leaf 1))" "(0 :: nat) < 1" by simp_all
  note c = C7_branch_collapse [OF h, where op = "MidMeasureMP 0 0 None True"
      and env = "undefined :: unit sim_env" and nxt = undefined and count = 0 and rest = "[]"
      and st = undefined]
  from c [of 0] have "branch_state (MidMeasureMP 0 0 None True) (Node (Leaf 0) (Leaf 1)) 0 0
      = Inl ValueError"
    by (simp add: linalg_norm_one_hot)
  moreover from c [of 1] have "branch_state (MidMeasureMP 0 0 None True)
      (Node (Leaf 0) (Leaf 1)) 0 1 = Inr (Node (Leaf 1) (Leaf 0))"
    by (simp add: linalg_norm_one_hot)
  ultimately show ?thesis by simp
qed

section \<open>Properties of pruning\<close>

lemma explored_respects_postselect:
  "tree env circuit initial_state st = Inr (r, st') \<Longrightarrow>
     respects_postselect (st_explored st) \<Longrightarrow> respects_postselect (st_explored st')"
  "branch_loop env op circuit_next state bs st = Inr (vs, st'') \<Longrightarrow>
     respects_postselect (st_explored st) \<Longrightarrow> respects_postselect (st_explored st'')"
proof (induction env circuit initial_state st and env op circuit_next state bs st
       arbitrary: r st' and vs st'' rule: tree_branch_loop.induct)
  case (1 env circuit initial_state st)
  from "1.prems" "1.IH" show ?case
    by (auto split: prod.splits option.splits sum.splits)
next
  case (2 env op circuit_next state st)
  then show ?case by simp
next
  case (3 env op circuit_next state branch count rest st)
  show ?case
  proof (cases "postselect op \<noteq> None \<and> Some branch \<noteq> postselect op")
    case True
    with "3.prems" "3.IH"(1) show ?thesis
      by (auto split: sum.splits)
  next
    case False
    with "3.prems" obtain new_state v st1 vs' where
      bs: "branch_state op state (mm_wire op) branch = Inr new_state"
      and t: "tree env (circuit_next\<lparr>shots := Some [count]\<rparr>) (Some new_state)
                (st\<lparr>st_mcm_active := dict_set op branch (st_mcm_active st),
                    st_explored := st_explored st @ [(op, branch)]\<rparr>) = Inr (v, st1)"
      and l: "branch_loop env op circuit_next state rest st1 = Inr (vs', st'')"
      by (auto split: sum.splits prod.splits)
    from False "3.prems"(2)
    have "respects_postselect (st_explored st @ [(op, branch)])"
      by (auto simp: respects_postselect_def)
    with "3.IH"(2) [OF False bs t] have "respects_postselect (st_explored st1)" by simp
    with "3.IH"(3) [OF False bs t _ l] show ?thesis by simp
  qed
qed


lemma dict_get_in_set: "dict_get k d = Some v \<Longrightarrow> (k, v) \<in> set d"
  by (induction d) (auto split: if_splits)

lemma mask_loop_ok:
  assumes "\<forall>(k, arr) \<in> set d. length arr = n"
    and "\<forall>(k, v) \<in> set (ancestors op active). dict_get k d \<noteq> None"
    and "length msk = n"
  shows "\<exists>m. mask_loop op active d msk = Inr m \<and> length m = n
           \<and> (\<forall>i<n. m ! i = (msk ! i
                 \<and> (\<forall>(k, v) \<in> set (ancestors op active). sample_at d k i = Fin (of_int v))))"
  using assms(2,3)
proof (induction active arbitrary: msk)
  case Nil
  then show ?case by (simp add: ancestors_def)
next
  case (Cons a active)
  obtain k v where a: "a = (k, v)" by (cases a)
  show ?case
  proof (cases "k = op")
    case True
    with a Cons.prems show ?thesis by (simp add: ancestors_def)
  next
    case False
    with a have anc: "ancestors op (a # active) = (k, v) # ancestors op active"
      by (simp add: ancestors_def)
    with Cons.prems(1) obtain arr where arr: "dict_get k d = Some arr" by auto
    with assms(1) have len: "length arr = n" by (auto dest: dict_get_in_set)
    let ?msk' = "map2 (\<and>) msk (np_eq arr v)"
    from len Cons.prems(2) have la: "logical_and msk (np_eq arr v) = Inr ?msk'"
      and l': "length ?msk' = n"
      by (simp_all add: logical_and_def np_eq_def)
    from anc Cons.prems(1) have "\<forall>(k, v) \<in> set (ancestors op active). dict_get k d \<noteq> None"
      by simp
    from Cons.IH [OF this l'] obtain m where
      m: "mask_loop op active d ?msk' = Inr m" "length m = n"
      "\<forall>i<n. m ! i = (?msk' ! i
          \<and> (\<forall>(k, v) \<in> set (ancestors op active). sample_at d k i = Fin (of_int v)))"
      by blast
    have "?msk' ! i = (msk ! i \<and> sample_at d k i = Fin (of_int v))" if "i < n" for i
      using that len Cons.prems(2) arr by (simp add: np_eq_def sample_at_def)
    with m a False arr la anc show ?thesis by auto
  qed
qed

lemma filter_zip_nths:
  "map fst (filter snd (zip xs bs)) = nths xs {i. i < length bs \<and> bs ! i}"
proof (induction xs arbitrary: bs)
  case Nil
  then show ?case by simp
next
  case (Cons x xs)
  show ?case
  proof (cases bs)
    case Nil
    then show ?thesis by simp
  next
    case (Cons b bs')
    have "{j. Suc j \<in> {i. i < length bs \<and> bs ! i}} = {i. i < length bs' \<and> bs' ! i}"
      using Cons by auto
    with Cons Cons.IH [of bs'] show ?thesis by (simp add: nths_Cons)
  qed
qed

lemma prune_all_ok:
  "\<forall>(k, arr) \<in> set d. length arr = length keep \<Longrightarrow>
     prune_all d keep = Inr (map (\<lambda>(k, arr). (k, nths arr {i. i < length keep \<and> keep ! i})) d)"
  by (induction d) (auto simp: boolean_index_def filter_zip_nths)

lemma dict_get_map:
  "dict_get k (map (\<lambda>(k, arr). (k, f arr)) d) = map_option f (dict_get k d)"
  by (induction d) auto

lemma nths_index:
  "nths xs A = map ((!) xs) (nths [0..<length xs] A)"
proof -
  have "nths (map ((!) xs) [0..<length xs]) A = map ((!) xs) (nths [0..<length xs] A)"
    by (rule nths_map)
  then show ?thesis by (simp add: map_nth)
qed

lemma prune_exact:
  assumes "samples_wf n op active d"
  shows "prune_mcm_samples op branch active d =
           Inr (map (\<lambda>(k, arr). (k, nths arr {i. i < n \<and> \<not> on_branch op branch active d i})) d)"
proof -
  from assms have len: "\<forall>(k, arr) \<in> set d. length arr = n"
    and anc: "\<forall>(k, v) \<in> set (ancestors op active). dict_get k d \<noteq> None"
    and "dict_get op d \<noteq> None"
    by (simp_all add: samples_wf_def)
  then obtain arr where arr: "dict_get op d = Some arr" by auto
  with len have la: "length arr = n" by (auto dest: dict_get_in_set)
  then have "length (np_eq arr branch) = n" by (simp add: np_eq_def)
  from mask_loop_ok [OF len anc this] obtain m where
    m: "mask_loop op active d (np_eq arr branch) = Inr m" "length m = n"
    "\<forall>i<n. m ! i = (np_eq arr branch ! i
        \<and> (\<forall>(k, v) \<in> set (ancestors op active). sample_at d k i = Fin (of_int v)))"
    by blast
  have mi: "m ! i = on_branch op branch active d i" if "i < n" for i
    using m(3) that la arr by (simp add: on_branch_def np_eq_def sample_at_def)
  have "{i. i < length (map Not m) \<and> map Not m ! i} = {i. i < n \<and> \<not> on_branch op branch active d i}"
    using m(2) mi by auto
  moreover from len m(2) have "\<forall>(k, arr) \<in> set d. length arr = length (map Not m)" by simp
  ultimately show ?thesis
    using arr m(1) prune_all_ok [of d "map Not m"]
    by (simp add: prune_mcm_samples_def)
qed

lemma pruned_absent:
  assumes "samples_wf n op active d"
    and "pruned = map (\<lambda>(k, arr). (k, nths arr {i. i < n \<and> \<not> on_branch op branch active d i})) d"
    and "dict_get k0 pruned = Some arr0" and "j < length arr0"
  shows "\<not> on_branch op branch active pruned j"
proof -
  let ?A = "{i. i < n \<and> \<not> on_branch op branch active d i}"
  let ?i = "nths [0..<n] ?A ! j"
  from assms(1) have len: "\<forall>(k, arr) \<in> set d. length arr = n" by (simp add: samples_wf_def)
  from assms(2,3) obtain a0 where a0: "dict_get k0 d = Some a0" "arr0 = nths a0 ?A"
    by (auto simp: dict_get_map)
  with len have "length a0 = n" by (auto dest: dict_get_in_set)
  with a0 assms(4) have j: "j < length (nths [0..<n] ?A)"
    by (simp add: nths_index [of a0])
  then have "?i \<in> set (nths [0..<n] ?A)" by simp
  then have i: "?i < n" "\<not> on_branch op branch active d ?i"
    by (auto simp: set_nths)
  have same: "sample_at pruned k j = sample_at d k ?i" for k
  proof (cases "dict_get k d")
    case None
    with assms(2) show ?thesis by (simp add: sample_at_def dict_get_map)
  next
    case (Some a)
    with len have "length a = n" by (auto dest: dict_get_in_set)
    with Some assms(2) j show ?thesis
      by (simp add: sample_at_def dict_get_map nths_index [of a])
  qed
  from i(2) show ?thesis by (simp add: on_branch_def same)
qed

section \<open>Properties of the tree simulator\<close>

lemma sqrt_35: "sqrt (9 / 25) = 3 / 5" "sqrt (16 / 25) = 4 / 5"
  by (rule real_sqrt_unique; simp add: power2_eq_square)+

lemma ry_norms:
  "linalg_norm (Node (Node (Leaf (3 / 5)) (Leaf 0)) (Node (Leaf 0) (Leaf 0))) = 3 / 5"
  "linalg_norm (Node (Node (Leaf 0) (Leaf 0)) (Node (Leaf (4 / 5)) (Leaf 0))) = 4 / 5"
  by (simp_all add: linalg_norm_def power2_eq_square sqrt_35 norm_divide)

lemmas eval_defs = stub_env_def fresh_state_def update_mcm_samples_def
     sample_wires_def ry_state_def branch_state_def ry_norms circuit_up_to_first_mcm_def
     samples_to_counts_def py_int_def prune_mcm_samples_def masked_assign_def np_eq_def logical_and_def
     boolean_index_def combine_measurements_def combine_measurements_core_def counts_wire0_def
     measurement_with_no_shots_def expval_Z0_def

lemma combine_loop_no_branches:
  "q = [] \<or> q = [[]] \<Longrightarrow>
   combine_loop gm True d ms q =
     Inr (map (\<lambda>m. if mp_kind m = SampleMP then np_squeeze (measurement_with_no_shots m)
                     else measurement_with_no_shots m) ms)"
proof (induction ms arbitrary: q)
  case Nil
  show ?case by simp
next
  case (Cons m ms)
  from Cons.prems have hq: "q = [] \<or> hd q = []" and tq: "tl q = [] \<or> tl q = [[]]"
    by auto
  show ?case
  proof (cases "mp_mv m = None")
    case True
    with hq Cons.IH [OF tq] show ?thesis by simp
  next
    case False
    with Cons.IH [OF Cons.prems] show ?thesis by simp
  qed
qed

lemma var_pass_placeholders:
  "var_pass ms (map (\<lambda>m. if mp_kind m = SampleMP then np_squeeze (measurement_with_no_shots m)
                     else measurement_with_no_shots m) ms) =
     Inr (map (\<lambda>m. if mp_mv m = None \<and> mp_kind m = VarianceMP then Scalar NaN
                     else if mp_kind m = SampleMP then Scalar NaN
                     else measurement_with_no_shots m) ms)"
  by (induction ms) (auto simp: measurement_with_no_shots_def)

lemma combine_measurements_no_branches:
  assumes "d \<noteq> []" and "\<forall>(k, arr) \<in> set d. arr = []"
  shows "combine_measurements gm circuit [] d =
     Inr (let final = map (\<lambda>m. if mp_mv m = None \<and> mp_kind m = VarianceMP then Scalar NaN
                     else if mp_kind m = SampleMP then Scalar NaN
                     else measurement_with_no_shots m) (measurements circuit)
          in if length final = 1 then Single (hd final) else Multi final)"
proof -
  from assms obtain k rest where d: "d = (k, []) # rest" by (cases d) auto
  from assms(2) have "\<not> list_ex (\<lambda>(k, m). length m \<noteq> 0) d"
    by (auto simp: list_ex_iff)
  with d show ?thesis
    by (simp add: combine_measurements_def combine_loop_no_branches var_pass_placeholders
        Let_def)
qed

lemma nested_tree_raises:
  "tree stub_env nested_tape None (fresh_state ()) = Inl TypeError"
  by (subst tree.simps) (simp add: eval_defs nested_tape_def)

lemma nested_combine_raises:
  "combine_measurements (env_gather_mcm stub_env) nested_tape
     [(0, 2, Single (PyFloat NaN)), (1, 2, Single (PyFloat NaN))]
     [(MidMeasureMP 0 0 None False, []), (MidMeasureMP 1 1 (Some 1) False, [])]
     = Inl TypeError"
  by (simp add: nested_tape_def combine_measurements_def combine_measurements_core_def
      counts_wire0_def)

text \<open>
  C6. When every shot is rejected by postselection and the arrays of \<^verbatim>\<open>mcm_samples\<close> are
  empty, \<^verbatim>\<open>combine_measurements\<close> should return a NaN placeholder for every measurement that
  does not depend on a mid-circuit measurement, and raise no error. It does so when no
  branch was simulated at the node (\<open>combine_measurements_no_branches\<close>). It does not when
  the rejection happens below the node: for the circuit \<open>nested_tape\<close>, both branches of the
  first measurement return the placeholder, and combining the two placeholders of the counts
  measurement raises a \<^verbatim>\<open>TypeError\<close>, which is also the outcome of \<^verbatim>\<open>simulate_tree_mcm\<close>.
\<close>

theorem C6_nested_rejection_raises:
  "combine_measurements (env_gather_mcm stub_env) nested_tape
     [(0, 2, Single (PyFloat NaN)), (1, 2, Single (PyFloat NaN))]
     [(MidMeasureMP 0 0 None False, []), (MidMeasureMP 1 1 (Some 1) False, [])]
     = Inl TypeError
   \<and> simulate_tree_mcm stub_env nested_tape () = Inl TypeError"
proof -
  have "\<not> has_partitioned_shots (shots nested_tape)"
    by (simp add: has_partitioned_shots_def nested_tape_def)
  then have "simulate_tree_mcm stub_env nested_tape () = Inl TypeError"
    by (simp only: simulate_tree_mcm_def if_False nested_tree_raises sum.case)
  with nested_combine_raises show ?thesis by (rule conjI)
qed


lemma postselect_run:
  "tree stub_env postselect_tape None (fresh_state ()) =
     Inr (Single (Scalar (Fin 1)),
          \<lparr>st_mcm_active = [(MidMeasureMP 0 0 (Some 1) False, 1)],
           st_mcm_samples = [(MidMeasureMP 0 0 (Some 1) False, [Fin 1, Fin 1])],
           st_rng = (),
           st_explored = [(MidMeasureMP 0 0 (Some 1) False, 1)]\<rparr>)"
  by (subst tree.simps) (simp add: eval_defs postselect_tape_def)


text \<open>
  C1. In \<^verbatim>\<open>simulate_tree_mcm\<close>, a branch of a measurement with a postselect value is simulated
  only when its outcome is that value: every branch recorded as simulated during a run
  agrees with the postselect value of its measurement, and for an outcome that differs the
  loop over the branches only prunes and goes on, with no simulation of the circuit after
  the measurement. \<^verbatim>\<open>prune_mcm_samples\<close> removes from every entry of \<^verbatim>\<open>mcm_samples\<close> exactly the
  positions whose recorded history is the rejected branch, so that no position of the
  surviving arrays has that history.
\<close>

theorem C1_postselection_pruning:
  "(tree env circuit initial_state st = Inr (r, st') \<and> st_explored st = [] \<longrightarrow>
      (\<forall>(op', b) \<in> set (st_explored st'). \<forall>p. postselect op' = Some p \<longrightarrow> b = p))
   \<and> (postselect op = Some p \<and> branch \<noteq> p \<longrightarrow>
        branch_loop env op nxt state ((branch, count) # rest) st =
          (case prune_mcm_samples op branch (st_mcm_active st) (st_mcm_samples st) of
             Inl e \<Rightarrow> Inl e
           | Inr pruned \<Rightarrow>
               branch_loop env op nxt state rest (st\<lparr>st_mcm_samples := pruned\<rparr>)))
   \<and> (samples_wf n op active d \<longrightarrow>
        (\<exists>pruned. prune_mcm_samples op branch active d = Inr pruned
           \<and> pruned = map (\<lambda>(k, arr).
                 (k, nths arr {i. i < n \<and> \<not> on_branch op branch active d i})) d
           \<and> (\<forall>k arr j. dict_get k pruned = Some arr \<and> j < length arr \<longrightarrow>
                  \<not> on_branch op branch active pruned j)))"
proof (intro conjI impI)
  assume "tree env circuit initial_state st = Inr (r, st') \<and> st_explored st = []"
  then have "respects_postselect (st_explored st')"
    using explored_respects_postselect(1) [of env circuit initial_state st r st']
    by (simp add: respects_postselect_def)
  then show "\<forall>(op', b) \<in> set (st_explored st'). \<forall>p. postselect op' = Some p \<longrightarrow> b = p"
    by (auto simp: respects_postselect_def list_all_iff)
next
  assume "postselect op = Some p \<and> branch \<noteq> p"
  then show "branch_loop env op nxt state ((branch, count) # rest) st =
          (case prune_mcm_samples op branch (st_mcm_active st) (st_mcm_samples st) of
             Inl e \<Rightarrow> Inl e
           | Inr pruned \<Rightarrow>
               branch_loop env op nxt state rest (st\<lparr>st_mcm_samples := pruned\<rparr>))"
    by simp
next
  assume wf: "samples_wf n op active d"
  let ?pruned = "map (\<lambda>(k, arr).
                 (k, nths arr {i. i < n \<and> \<not> on_branch op branch active d i})) d"
  have "prune_mcm_samples op branch active d = Inr ?pruned"
    by (rule prune_exact [OF wf])
  moreover have "\<forall>k arr j. dict_get k ?pruned = Some arr \<and> j < length arr \<longrightarrow>
                  \<not> on_branch op branch active ?pruned j"
    using pruned_absent [OF wf refl] by blast
  ultimately show "\<exists>pruned. prune_mcm_samples op branch active d = Inr pruned
           \<and> pruned = map (\<lambda>(k, arr).
                 (k, nths arr {i. i < n \<and> \<not> on_branch op branch active d i})) d
           \<and> (\<forall>k arr j. dict_get k pruned = Some arr \<and> j < length arr \<longrightarrow>
                  \<not> on_branch op branch active pruned j)"
    by blast
qed

lemma example_prune:
  "prune_mcm_samples (MidMeasureMP 1 1 (Some 1) False) 0 [(MidMeasureMP 0 0 None False, 1)]
     example_samples =
   Inr [(MidMeasureMP 0 0 None False, [Fin 0, Fin 0, Fin 1]),
        (MidMeasureMP 1 1 (Some 1) False, [Fin 1, Fin 1, Fin 1])]"
  by (simp add: prune_mcm_samples_def example_samples_def np_eq_def logical_and_def
      boolean_index_def)

theorem C1_postselection_pruning_witness:
  "tree stub_env postselect_tape None (fresh_state ()) =
     Inr (Single (Scalar (Fin 1)),
          \<lparr>st_mcm_active = [(MidMeasureMP 0 0 (Some 1) False, 1)],
           st_mcm_samples = [(MidMeasureMP 0 0 (Some 1) False, [Fin 1, Fin 1])],
           st_rng = (),
           st_explored = [(MidMeasureMP 0 0 (Some 1) False, 1)]\<rparr>)
   \<and> prune_mcm_samples (MidMeasureMP 1 1 (Some 1) False) 0 [(MidMeasureMP 0 0 None False, 1)]
       example_samples =
     Inr [(MidMeasureMP 0 0 None False, [Fin 0, Fin 0, Fin 1]),
          (MidMeasureMP 1 1 (Some 1) False, [Fin 1, Fin 1, Fin 1])]
   \<and> \<not> on_branch (MidMeasureMP 1 1 (Some 1) False) 0 [(MidMeasureMP 0 0 None False, 1)]
         [(MidMeasureMP 0 0 None False, [Fin 0, Fin 0, Fin 1]),
          (MidMeasureMP 1 1 (Some 1) False, [Fin 1, Fin 1, Fin 1])] 1"
proof -
  let ?m0 = "MidMeasureMP 0 0 None False" and ?m1 = "MidMeasureMP 1 1 (Some 1) False"
  have wf: "samples_wf 4 ?m1 [(?m0, 1)] example_samples"
    by (simp add: samples_wf_def example_samples_def ancestors_def)
  from C1_postselection_pruning [where n = 4 and op = ?m1 and active = "[(?m0, 1)]"
      and d = example_samples and branch = 0] wf
  obtain pruned where
    p: "prune_mcm_samples ?m1 0 [(?m0, 1)] example_samples = Inr pruned"
    and a: "\<forall>k arr j. dict_get k pruned = Some arr \<and> j < length arr \<longrightarrow>
              \<not> on_branch ?m1 0 [(?m0, 1)] pruned j"
    by blast
  from p example_prune have "pruned = [(?m0, [Fin 0, Fin 0, Fin 1]), (?m1, [Fin 1, Fin 1, Fin 1])]"
    by simp
  moreover from a have "dict_get ?m0 pruned = Some [Fin 0, Fin 0, Fin 1]
      \<and> 1 < length [Fin 0, Fin 0, Fin 1 :: fl] \<longrightarrow> \<not> on_branch ?m1 0 [(?m0, 1)] pruned 1"
    by blast
  ultimately have "\<not> on_branch ?m1 0 [(?m0, 1)]
      [(?m0, [Fin 0, Fin 0, Fin 1]), (?m1, [Fin 1, Fin 1, Fin 1])] 1"
    by simp
  with postselect_run example_prune show ?thesis by simp
qed

end
